theory Spec2Isabelle
  imports Complex_Main
begin

unbundle bit_operations_syntax

section \<open>Python values, exceptions and results\<close>

text \<open>
  The two modules verified here are \<^verbatim>\<open>gevent/__init__.py\<close> (hub, spawn, sleep,
  wait_reader, wait_writer, the timeout scope and with_timeout) and
  \<^verbatim>\<open>gevent/socket.py\<close> (wait_read, wait_write, wait_readwrite and the cooperative socket).
  Python objects that the code compares by identity (greenlets, reactor events, exception
  instances, hubs, sockets) are addresses into total stores with an allocation counter.
\<close>

type_synonym gid = nat
type_synonym oid = nat
type_synonym evid = nat

datatype exc_class =
    TimeoutError
  | SilentException
  | AssertionError
  | GreenletExit
  | IndexError
  | TypeError
  | ValueError
  | socket_error
  | socket_timeout
  | gaierror
  | UserClass nat
  | Subclass exc_class nat

text \<open>\<^verbatim>\<open>socket.timeout\<close> and \<^verbatim>\<open>socket.gaierror\<close> derive from \<^verbatim>\<open>socket.error\<close>;
  \<open>Subclass c n\<close> is the n-th user class derived from \<open>c\<close>.\<close>

fun issubclass :: "exc_class \<Rightarrow> exc_class \<Rightarrow> bool" where
  "issubclass (Subclass c n) d = (Subclass c n = d \<or> issubclass c d)"
| "issubclass socket_timeout d = (d = socket_timeout \<or> d = socket_error)"
| "issubclass gaierror d = (d = gaierror \<or> d = socket_error)"
| "issubclass c d = (c = d)"

datatype pyobj =
    PyNone
  | PyInt int
  | PyFloat real
  | PyStr string
  | PyClass exc_class
  | EventRef evid
  | PyEmptyTuple

text \<open>Python's \<^verbatim>\<open>==\<close>: numbers compare by value across int and float, everything else
  modelled here compares equal only to itself.\<close>

fun py_num :: "pyobj \<Rightarrow> real option" where
  "py_num (PyInt i) = Some (of_int i)"
| "py_num (PyFloat x) = Some x"
| "py_num _ = None"

definition py_eq :: "pyobj \<Rightarrow> pyobj \<Rightarrow> bool" where
  "py_eq a b =
     (case (py_num a, py_num b) of
        (Some x, Some y) \<Rightarrow> x = y
      | (None, None) \<Rightarrow> a = b
      | _ \<Rightarrow> False)"

text \<open>A timeout value as the code holds it: \<^verbatim>\<open>None\<close> or a number.\<close>

fun of_timeout :: "real option \<Rightarrow> pyobj" where
  "of_timeout None = PyNone"
| "of_timeout (Some x) = PyFloat x"

datatype exc = Exc (exc_cls: exc_class) (exc_id: oid) (exc_args: "pyobj list")

text \<open>\<^verbatim>\<open>a is b\<close> on exception instances: the same object.\<close>

definition exc_is :: "exc \<Rightarrow> exc \<Rightarrow> bool" where
  "exc_is a b = (exc_id a = exc_id b)"

text \<open>What is handed to \<^verbatim>\<open>throw\<close> or kept as a scope's exception: a class or an instance.\<close>

datatype exc_spec = ExcClass exc_class | ExcInst exc

text \<open>The outcome of a call: it returns a value, raises, or never comes back (a greenlet
  that switched away and is never resumed).\<close>

datatype 'a result = Return 'a | Raise exc | Hang

section \<open>The runtime state\<close>

datatype callback =
    greenlet_switch_cb gid
  | greenlet_throw_cb gid "exc_spec option"
  | wait_helper_cb

datatype ev_kind = Timer | ReadEv pyobj | WriteEv pyobj | ReadWriteEv pyobj

record event_rec =
  ev_kind :: ev_kind
  ev_seconds :: "real option"
  ev_callback :: callback
  ev_arg :: "(gid \<times> exc_spec) option"
  ev_cancelled :: bool

datatype body = Hub_run nat | UserFunction nat

record greenlet_rec =
  parent :: "gid option"
  dead :: bool
  started :: bool
  has_switch_out :: bool
  g_run :: body

record hub_rec =
  greenlet :: gid
  keyboard_interrupt_signal :: "evid option"

datatype sock_obj = realsocket int | closedsocket

record socket_rec =
  sock :: sock_obj
  sock_timeout :: "real option"
  inst_methods :: "string set"

record state =
  current :: gid
  greenlets :: "gid \<Rightarrow> greenlet_rec"
  next_gid :: gid
  events :: "evid \<Rightarrow> event_rec"
  next_evid :: evid
  hubs :: "nat \<Rightarrow> hub_rec"
  next_hub :: nat
  threadlocal_hub :: "nat option"
  next_oid :: oid
  sockets :: "nat \<Rightarrow> socket_rec"
  oscalls :: "(int \<times> string \<times> pyobj list) list"
  printed :: "exc list"

text \<open>What the code does not decide: the body of a greenlet's \<^verbatim>\<open>switch_out\<close> hook, and
  what a switch into a greenlet eventually delivers back to the caller.\<close>

record env =
  switch_out :: "gid \<Rightarrow> state \<Rightarrow> unit result \<times> state"
  greenlet_switch :: "gid \<Rightarrow> state \<Rightarrow> pyobj result \<times> state"

definition getcurrent :: "state \<Rightarrow> gid" where
  "getcurrent s = current s"

definition new_exc :: "exc_class \<Rightarrow> pyobj list \<Rightarrow> state \<Rightarrow> exc \<times> state" where
  "new_exc c args s = (Exc c (next_oid s) args, s\<lparr>next_oid := Suc (next_oid s)\<rparr>)"

definition raise_new :: "exc_class \<Rightarrow> pyobj list \<Rightarrow> state \<Rightarrow> 'a result \<times> state" where
  "raise_new c args s = (let (e, s') = new_exc c args s in (Raise e, s'))"

text \<open>\<^verbatim>\<open>try: ... finally: cleanup\<close>: the cleanup runs when the body returns or raises.\<close>

definition try_finally :: "'a result \<times> state \<Rightarrow> (state \<Rightarrow> state) \<Rightarrow> 'a result \<times> state" where
  "try_finally rs cleanup =
     (case rs of
        (Hang, s) \<Rightarrow> (Hang, s)
      | (r, s) \<Rightarrow> (r, cleanup s))"

subsection \<open>The reactor\<close>

text \<open>Modelled from the spec: \<^verbatim>\<open>gevent.core\<close> (the libevent binding) is not among the
  sources. Arming returns a fresh event handle; \<^verbatim>\<open>cancel\<close> marks the handle cancelled and
  is idempotent.\<close>

definition arm :: "ev_kind \<Rightarrow> real option \<Rightarrow> callback \<Rightarrow> (gid \<times> exc_spec) option \<Rightarrow> state \<Rightarrow> evid \<times> state" where
  "arm k secs cb arg s =
     (next_evid s,
      s\<lparr>events := (events s)(next_evid s :=
           \<lparr>ev_kind = k, ev_seconds = secs, ev_callback = cb, ev_arg = arg, ev_cancelled = False\<rparr>),
        next_evid := Suc (next_evid s)\<rparr>)"

definition event_cancel :: "evid \<Rightarrow> state \<Rightarrow> state" where
  "event_cancel ev s = s\<lparr>events := (events s)(ev := (events s ev)\<lparr>ev_cancelled := True\<rparr>)\<rparr>"

definition core_timer :: "real \<Rightarrow> callback \<Rightarrow> state \<Rightarrow> evid \<times> state" where
  "core_timer seconds cb s = arm Timer (Some seconds) cb None s"

definition core_read :: "pyobj \<Rightarrow> callback \<Rightarrow> real option \<Rightarrow> gid \<times> exc_spec \<Rightarrow> state \<Rightarrow> evid \<times> state" where
  "core_read fileno cb timeout arg s = arm (ReadEv fileno) timeout cb (Some arg) s"

definition core_write :: "pyobj \<Rightarrow> callback \<Rightarrow> real option \<Rightarrow> gid \<times> exc_spec \<Rightarrow> state \<Rightarrow> evid \<times> state" where
  "core_write fileno cb timeout arg s = arm (WriteEv fileno) timeout cb (Some arg) s"

definition core_readwrite :: "pyobj \<Rightarrow> callback \<Rightarrow> real option \<Rightarrow> gid \<times> exc_spec \<Rightarrow> state \<Rightarrow> evid \<times> state" where
  "core_readwrite fileno cb timeout arg s = arm (ReadWriteEv fileno) timeout cb (Some arg) s"

text \<open>Modelled from the spec: the "timeout" bit of the event flags (libevent's 0x01).\<close>

definition EV_TIMEOUT :: int where
  "EV_TIMEOUT = 1"

section \<open>gevent/__init__.py\<close>

definition timer :: "real \<Rightarrow> callback \<Rightarrow> state \<Rightarrow> evid \<times> state" where
  "timer seconds cb s = core_timer seconds cb s"

text \<open>The greenlet class called with \<^verbatim>\<open>run\<close>: a new greenlet, not started, whose parent is
  the creating greenlet.\<close>

definition greenlet_class :: "body \<Rightarrow> state \<Rightarrow> gid \<times> state" where
  "greenlet_class r s =
     (next_gid s,
      s\<lparr>greenlets := (greenlets s)(next_gid s :=
           \<lparr>parent = Some (current s), dead = False, started = False,
            has_switch_out = False, g_run = r\<rparr>),
        next_gid := Suc (next_gid s)\<rparr>)"

text \<open>Lines 7 to 12 bind the name \<^verbatim>\<open>greenlet\<close> to the class \<^verbatim>\<open>py.magic.greenlet\<close> or, when
  that import raises \<^verbatim>\<open>ImportError\<close>, to the module \<^verbatim>\<open>greenlet\<close> (and \<^verbatim>\<open>Greenlet\<close> to the
  class \<^verbatim>\<open>greenlet.greenlet\<close>). Line 45 then binds \<^verbatim>\<open>Greenlet\<close> again, to whatever
  \<^verbatim>\<open>greenlet\<close> names. So \<^verbatim>\<open>Greenlet(run)\<close> calls the class after the first import and
  the module after the second, and calling a module raises \<^verbatim>\<open>TypeError\<close>.\<close>

datatype greenlet_import = py_magic | greenlet_module

definition Greenlet :: "greenlet_import \<Rightarrow> body \<Rightarrow> state \<Rightarrow> gid result \<times> state" where
  "Greenlet imp r s =
     (case imp of
        py_magic \<Rightarrow> (let (g, s1) = greenlet_class r s in (Return g, s1))
      | greenlet_module \<Rightarrow> raise_new TypeError [PyStr ''module object is not callable''] s)"

text \<open>\<^verbatim>\<open>Hub.__init__\<close> and \<^verbatim>\<open>Hub.switch\<close> call \<^verbatim>\<open>Greenlet(self.run)\<close>. Where
  \<^verbatim>\<open>Greenlet\<close> is the module, \<^verbatim>\<open>Hub()\<close> raises the \<^verbatim>\<open>TypeError\<close> of that call and no hub
  ever exists; the hub and everything that switches to it are modelled where a hub can
  exist, with \<^verbatim>\<open>Greenlet\<close> the class.\<close>

definition Hub_init :: "state \<Rightarrow> nat \<times> state" where
  "Hub_init s =
     (let self = next_hub s;
          (g, s1) = greenlet_class (Hub_run self) s
      in (self,
          s1\<lparr>hubs := (hubs s1)(self := \<lparr>greenlet = g, keyboard_interrupt_signal = None\<rparr>),
             next_hub := Suc self\<rparr>))"

definition get_hub :: "state \<Rightarrow> nat \<times> state" where
  "get_hub s =
     (case threadlocal_hub s of
        Some hub \<Rightarrow> (hub, s)
      | None \<Rightarrow> (let (hub, s1) = Hub_init s in (hub, s1\<lparr>threadlocal_hub := Some hub\<rparr>)))"

text \<open>\<^verbatim>\<open>spawn(function, *args, **kwargs)\<close>, with \<open>imp\<close> the import that bound
  \<^verbatim>\<open>greenlet\<close>. Its second line is reached only when the first did not raise, that is
  with \<^verbatim>\<open>Greenlet\<close> the class, where \<^verbatim>\<open>get_hub()\<close> can make the hub.\<close>

definition spawn :: "greenlet_import \<Rightarrow> nat \<Rightarrow> state \<Rightarrow> gid result \<times> state" where
  "spawn imp func s =
     (case Greenlet imp (UserFunction func) s of
        (Return g, s1) \<Rightarrow>
          (let (hub, s2) = get_hub s1;
               s3 = s2\<lparr>greenlets := (greenlets s2)(g :=
                      (greenlets s2 g)\<lparr>parent := Some (greenlet (hubs s2 hub))\<rparr>)\<rparr>;
               (t, s4) = timer 0 (greenlet_switch_cb g) s3
           in (Return g, s4))
      | (Raise e, s1) \<Rightarrow> (Raise e, s1)
      | (Hang, s1) \<Rightarrow> (Hang, s1))"

text \<open>The first part of \<^verbatim>\<open>Hub.switch\<close>: the caller's \<^verbatim>\<open>switch_out\<close> hook, when it has one,
  is called; an exception of the hook is printed and dropped.\<close>

definition call_switch_out :: "env \<Rightarrow> state \<Rightarrow> unit result \<times> state" where
  "call_switch_out env s =
     (let cur = getcurrent s in
      if has_switch_out (greenlets s cur)
      then (case switch_out env cur s of
              (Raise e, s1) \<Rightarrow> (Return (), s1\<lparr>printed := printed s1 @ [e]\<rparr>)
            | (r, s1) \<Rightarrow> (r, s1))
      else (Return (), s))"

text \<open>\<^verbatim>\<open>Hub.switch\<close> up to its last line: the greenlet that
  \<^verbatim>\<open>self.greenlet.switch()\<close> is about to enter, with the state at that moment.\<close>

definition Hub_switch_to :: "env \<Rightarrow> nat \<Rightarrow> state \<Rightarrow> gid result \<times> state" where
  "Hub_switch_to env self s =
     (let cur = getcurrent s in
      if cur = greenlet (hubs s self)
      then raise_new AssertionError [PyStr ''Cannot switch to MAINLOOP from MAINLOOP''] s
      else
        (case call_switch_out env s of
           (Hang, s2) \<Rightarrow> (Hang, s2)
         | (_, s2) \<Rightarrow>
             let s3 = (if dead (greenlets s2 (greenlet (hubs s2 self)))
                       then (let (g, s') = greenlet_class (Hub_run self) s2
                             in s'\<lparr>hubs := (hubs s')(self := (hubs s' self)\<lparr>greenlet := g\<rparr>)\<rparr>)
                       else s2)
             in (Return (greenlet (hubs s3 self)), s3)))"

definition Hub_switch :: "env \<Rightarrow> nat \<Rightarrow> state \<Rightarrow> pyobj result \<times> state" where
  "Hub_switch env self s =
     (case Hub_switch_to env self s of
        (Return g, s') \<Rightarrow> greenlet_switch env g s'
      | (Raise e, s') \<Rightarrow> (Raise e, s')
      | (Hang, s') \<Rightarrow> (Hang, s'))"

definition sleep :: "env \<Rightarrow> real \<Rightarrow> state \<Rightarrow> pyobj result \<times> state" where
  "sleep env seconds s =
     (let (hub, s1) = get_hub s in
      if greenlet (hubs s1 hub) = getcurrent s1
      then raise_new AssertionError [PyStr ''do not call blocking functions from the mainloop''] s1
      else
        let (t, s2) = timer seconds (greenlet_switch_cb (getcurrent s1)) s1
        in try_finally
             (let (r, s3) = Hub_switch env hub s2
              in case r of
                   Return v \<Rightarrow> (Return PyNone, s3)
                 | Raise e \<Rightarrow> (Raise e, s3)
                 | Hang \<Rightarrow> (Hang, s3))
             (event_cancel t))"

text \<open>\<^verbatim>\<open>get_hub().switch()\<close>, and the body of the \<^verbatim>\<open>try\<close> of \<^verbatim>\<open>wait_reader\<close> and
  \<^verbatim>\<open>wait_writer\<close>: switch to the hub and assert that the value delivered is the armed
  event.\<close>

definition get_hub_switch :: "env \<Rightarrow> state \<Rightarrow> pyobj result \<times> state" where
  "get_hub_switch env s1 = (let (hub, s2) = get_hub s1 in Hub_switch env hub s2)"

definition switch_and_check :: "env \<Rightarrow> evid \<Rightarrow> state \<Rightarrow> pyobj result \<times> state" where
  "switch_and_check env evt s1 =
     (let (r, s3) = get_hub_switch env s1
      in case r of
           Return returned_ev \<Rightarrow>
             (if returned_ev = EventRef evt then (Return PyNone, s3)
              else raise_new AssertionError [EventRef evt, returned_ev] s3)
         | Raise e \<Rightarrow> (Raise e, s3)
         | Hang \<Rightarrow> (Hang, s3))"

definition wait_reader :: "env \<Rightarrow> pyobj \<Rightarrow> real option \<Rightarrow> exc_spec \<Rightarrow> state \<Rightarrow> pyobj result \<times> state" where
  "wait_reader env fileno timeout timeout_exc s =
     (let (evt, s1) = core_read fileno wait_helper_cb timeout (getcurrent s, timeout_exc) s
      in try_finally (switch_and_check env evt s1) (event_cancel evt))"

definition wait_writer :: "env \<Rightarrow> pyobj \<Rightarrow> real option \<Rightarrow> exc_spec \<Rightarrow> state \<Rightarrow> pyobj result \<times> state" where
  "wait_writer env fileno timeout timeout_exc s =
     (let (evt, s1) = core_write fileno wait_helper_cb timeout (getcurrent s, timeout_exc) s
      in try_finally (switch_and_check env evt s1) (event_cancel evt))"

subsection \<open>The timeout scope\<close>

record timeout_rec =
  scope_exception :: exc_spec
  scope_timeout :: "evid option"

text \<open>\<^verbatim>\<open>timeout.__init__(seconds, exception)\<close>; \<open>None\<close> stands for Python's \<^verbatim>\<open>None\<close> in
  both arguments.\<close>

definition timeout_init :: "real option \<Rightarrow> exc_spec option \<Rightarrow> state \<Rightarrow> timeout_rec \<times> state" where
  "timeout_init seconds exception s =
     (let (exception', s1) =
            (case exception of
               None \<Rightarrow> (let (e, s') = new_exc SilentException [] s in (ExcInst e, s'))
             | Some x \<Rightarrow> (x, s))
      in case seconds of
           None \<Rightarrow> (\<lparr>scope_exception = exception', scope_timeout = None\<rparr>, s1)
         | Some d \<Rightarrow>
             (let (t, s2) = timer d (greenlet_throw_cb (getcurrent s1) (Some exception')) s1
              in (\<lparr>scope_exception = exception', scope_timeout = Some t\<rparr>, s2)))"

definition timeout_cancel :: "timeout_rec \<Rightarrow> state \<Rightarrow> state" where
  "timeout_cancel self s =
     (case scope_timeout self of
        None \<Rightarrow> s
      | Some t \<Rightarrow> event_cancel t s)"

text \<open>\<^verbatim>\<open>value is self.exception\<close>: the raised instance is the object the scope stores.\<close>

fun value_is :: "exc \<Rightarrow> exc_spec \<Rightarrow> bool" where
  "value_is v (ExcInst e) = exc_is v e"
| "value_is v (ExcClass c) = False"

text \<open>\<^verbatim>\<open>timeout.__exit__(typ, value, tb)\<close>: the in-flight exception is \<open>Some value\<close> (its
  type is the class of the value), and \<open>None\<close> on a normal exit. The result is the
  truth of the return value: \<open>True\<close> suppresses the exception.\<close>

definition timeout_exit :: "timeout_rec \<Rightarrow> exc option \<Rightarrow> state \<Rightarrow> bool \<times> state" where
  "timeout_exit self exc_info s =
     (let s1 = timeout_cancel self s
      in case exc_info of
           None \<Rightarrow> (False, s1)
         | Some v \<Rightarrow>
             (if exc_cls v = SilentException \<and> value_is v (scope_exception self)
              then (True, s1) else (False, s1)))"

text \<open>\<^verbatim>\<open>with_timeout(seconds, func, *args, **kwds)\<close>: \<open>func\<close> is the call
  \<^verbatim>\<open>func(*args, **kwds)\<close>, and \<open>timeout_value_kw\<close> is \<open>Some v\<close> when the keyword
  \<^verbatim>\<open>timeout_value=v\<close> was passed.\<close>

definition with_timeout ::
  "real option \<Rightarrow> (state \<Rightarrow> pyobj result \<times> state) \<Rightarrow> pyobj option \<Rightarrow> state \<Rightarrow> pyobj result \<times> state" where
  "with_timeout seconds func timeout_value_kw s =
     (let has_timeout_value = (timeout_value_kw \<noteq> None);
          timeout_value = (case timeout_value_kw of None \<Rightarrow> PyNone | Some v \<Rightarrow> v);
          (error, s1) = new_exc TimeoutError [] s;
          (timer, s2) = timeout_init seconds (Some (ExcInst error)) s1
      in try_finally
           (let (r, s3) = func s2
            in case r of
                 Raise ex \<Rightarrow>
                   (if issubclass (exc_cls ex) TimeoutError
                    then (if exc_is ex error \<and> has_timeout_value
                          then (Return timeout_value, s3)
                          else (Raise ex, s3))
                    else (Raise ex, s3))
               | _ \<Rightarrow> (r, s3))
           (timeout_cancel timer))"

section \<open>gevent/socket.py\<close>

text \<open>The errno values are those of Linux; the code only compares them.\<close>

definition EWOULDBLOCK :: int where
  "EWOULDBLOCK = 11"

definition EBADF :: int where
  "EBADF = 9"

text \<open>The module-level name \<^verbatim>\<open>timeout\<close> of socket.py is bound to the exception class
  \<^verbatim>\<open>_socket.timeout\<close>.\<close>

definition timeout_global :: pyobj where
  "timeout_global = PyClass socket_timeout"

text \<open>The default \<^verbatim>\<open>timeout_exc\<close> of \<^verbatim>\<open>wait_write\<close>: one instance, made when the function is
  defined.\<close>

definition wait_write_timeout_exc :: exc_spec where
  "wait_write_timeout_exc = ExcInst (Exc socket_timeout 1 [PyStr ''timed out''])"

text \<open>The wait primitives of socket.py take the hub from \<^verbatim>\<open>gevent.hub\<close>, which is not
  among the sources: \<open>hub_switch\<close> stands for \<^verbatim>\<open>get_hub().switch()\<close>.\<close>

definition switch_and_assert ::
  "(state \<Rightarrow> pyobj result \<times> state) \<Rightarrow> string \<Rightarrow> evid \<Rightarrow> state \<Rightarrow> pyobj result \<times> state" where
  "switch_and_assert hub_switch msg evt s1 =
     (let (r, s2) = hub_switch s1
      in case r of
           Return switch_result \<Rightarrow>
             (if switch_result = EventRef evt then (Return PyNone, s2)
              else raise_new AssertionError [PyStr msg, switch_result] s2)
         | Raise e \<Rightarrow> (Raise e, s2)
         | Hang \<Rightarrow> (Hang, s2))"

definition wait_read ::
  "(state \<Rightarrow> pyobj result \<times> state) \<Rightarrow> pyobj \<Rightarrow> real option \<Rightarrow> exc_spec \<Rightarrow> state \<Rightarrow> pyobj result \<times> state" where
  "wait_read hub_switch fileno timeout timeout_exc s =
     (let (evt, s1) = core_read fileno wait_helper_cb timeout (getcurrent s, timeout_exc) s
      in try_finally
           (switch_and_assert hub_switch ''Invalid switch into wait_read()'' evt s1)
           (event_cancel evt))"

definition wait_write ::
  "(state \<Rightarrow> pyobj result \<times> state) \<Rightarrow> pyobj \<Rightarrow> real option \<Rightarrow> exc_spec \<Rightarrow> state \<Rightarrow> pyobj result \<times> state" where
  "wait_write hub_switch fileno timeout timeout_exc s =
     (let (evt, s1) = core_write fileno wait_helper_cb timeout (getcurrent s, timeout_exc) s
      in try_finally
           (switch_and_assert hub_switch ''Invalid switch into wait_write()'' evt s1)
           (event_cancel evt))"

definition wait_readwrite ::
  "(state \<Rightarrow> pyobj result \<times> state) \<Rightarrow> pyobj \<Rightarrow> real option \<Rightarrow> exc_spec \<Rightarrow> state \<Rightarrow> pyobj result \<times> state" where
  "wait_readwrite hub_switch fileno timeout timeout_exc s =
     (let (evt, s1) = core_readwrite fileno wait_helper_cb timeout (getcurrent s, timeout_exc) s
      in try_finally
           (switch_and_assert hub_switch ''Invalid switch into wait_readwrite()'' evt s1)
           (event_cancel evt))"

subsection \<open>The cooperative socket\<close>

text \<open>\<^verbatim>\<open>_closedsocket._dummy(*args)\<close>.\<close>

definition closedsocket_dummy :: "state \<Rightarrow> pyobj result \<times> state" where
  "closedsocket_dummy s = raise_new socket_error [PyInt EBADF, PyStr ''Bad file descriptor''] s"

text \<open>What a method of the operating system's socket answers: an exception (class and
  arguments) or a value. It may depend on everything that happened before.\<close>

type_synonym os = "state \<Rightarrow> int \<Rightarrow> string \<Rightarrow> pyobj list \<Rightarrow> (exc_class \<times> pyobj list) + pyobj"

text \<open>\<^verbatim>\<open>self._sock.m(*args)\<close>: on the placeholder every name is \<^verbatim>\<open>_dummy\<close> (the six
  listed methods, and \<^verbatim>\<open>__getattr__\<close> for the rest); on a real socket the call is logged
  and the operating system answers.\<close>

definition sock_call :: "os \<Rightarrow> nat \<Rightarrow> string \<Rightarrow> pyobj list \<Rightarrow> state \<Rightarrow> pyobj result \<times> state" where
  "sock_call os self m args s =
     (case sock (sockets s self) of
        closedsocket \<Rightarrow> closedsocket_dummy s
      | realsocket fd \<Rightarrow>
          (let s1 = s\<lparr>oscalls := oscalls s @ [(fd, m, args)]\<rparr>
           in case os s fd m args of
                Inl (c, a) \<Rightarrow> raise_new c a s1
              | Inr v \<Rightarrow> (Return v, s1)))"

definition delegate_methods :: "string list" where
  "delegate_methods =
     [''recv'', ''recvfrom'', ''recv_into'', ''recvfrom_into'', ''send'', ''sendto'', ''sendall'']"

text \<open>\<^verbatim>\<open>setattr(self, method, dummy)\<close>.\<close>

definition setattr_dummy :: "nat \<Rightarrow> string \<Rightarrow> state \<Rightarrow> state" where
  "setattr_dummy self method s =
     s\<lparr>sockets := (sockets s)(self :=
         (sockets s self)\<lparr>inst_methods := insert method (inst_methods (sockets s self))\<rparr>)\<rparr>"

definition socket_close :: "nat \<Rightarrow> state \<Rightarrow> state" where
  "socket_close self s =
     (let s1 = s\<lparr>sockets := (sockets s)(self := (sockets s self)\<lparr>sock := closedsocket\<rparr>)\<rparr>
      in fold (setattr_dummy self) delegate_methods s1)"

text \<open>The methods that the class body generates for the names of the standard library's
  \<^verbatim>\<open>_socketmethods\<close> it does not define itself:
  \<^verbatim>\<open>def m(self, *args): return self._sock.m(*args)\<close>.\<close>

definition socket_delegated :: "os \<Rightarrow> nat \<Rightarrow> string \<Rightarrow> pyobj list \<Rightarrow> state \<Rightarrow> pyobj result \<times> state" where
  "socket_delegated os self m args s = sock_call os self m args s"

text \<open>The names bound in the class body when the delegating methods are generated.\<close>

definition class_locals :: "string list" where
  "class_locals =
     [''__init__'', ''__repr__'', ''__str__'', ''_formatinfo'', ''fd'', ''accept'', ''close'',
      ''connect'', ''connect_ex'', ''dup'', ''makefile'', ''recv'', ''recvfrom'',
      ''recvfrom_into'', ''recv_into'', ''send'', ''sendall'', ''sendto'', ''setblocking'',
      ''settimeout'', ''gettimeout'', ''family'', ''type'', ''proto'']"

text \<open>What \<^verbatim>\<open>s.name\<close> resolves to on a socket object: a binding on the instance (only
  \<^verbatim>\<open>close\<close> makes one, to \<^verbatim>\<open>_dummy\<close>) shadows the method of the class; the remaining names
  of \<open>socketmethods\<close> (the standard library's list, not among the sources) delegate.\<close>

datatype attr = InstanceDummy | ClassAttr string | Delegate string | NoAttribute

definition socket_getattr :: "string list \<Rightarrow> nat \<Rightarrow> string \<Rightarrow> state \<Rightarrow> attr" where
  "socket_getattr socketmethods self name s =
     (if name \<in> inst_methods (sockets s self) then InstanceDummy
      else if name \<in> set class_locals then ClassAttr name
      else if name \<in> set socketmethods then Delegate name
      else NoAttribute)"

text \<open>The \<^verbatim>\<open>timeout\<close> keyword of \<^verbatim>\<open>send\<close>: left at its default, or given.
  In \<^verbatim>\<open>send\<close> and \<^verbatim>\<open>sendto\<close>, \<^verbatim>\<open>except error, ex\<close> catches the instances of
  \<^verbatim>\<open>socket.error\<close> and of its subclasses, \<^verbatim>\<open>ex[0]\<close> is the first argument of the
  exception (and raises \<^verbatim>\<open>IndexError\<close> when there is none), and \<^verbatim>\<open>sys.exc_clear()\<close>
  changes nothing that is modelled. \<^verbatim>\<open>self.fileno()\<close> in \<^verbatim>\<open>sendto\<close> is the generated
  delegating method.\<close>

datatype timeout_arg = timeout_default | TimeoutArg "real option"

definition socket_send ::
  "(state \<Rightarrow> pyobj result \<times> state) \<Rightarrow> os \<Rightarrow> nat \<Rightarrow> pyobj \<Rightarrow> pyobj \<Rightarrow> timeout_arg \<Rightarrow> state
     \<Rightarrow> pyobj result \<times> state" where
  "socket_send hub_switch os self data flags timeout s =
     (let timeout' = (case timeout of
                        timeout_default \<Rightarrow> sock_timeout (sockets s self)
                      | TimeoutArg t \<Rightarrow> t);
          (r, s1) = sock_call os self ''send'' [data, flags] s
      in case r of
           Raise ex \<Rightarrow>
             if \<not> issubclass (exc_cls ex) socket_error then (Raise ex, s1)
             else
               (case exc_args ex of
                  [] \<Rightarrow> raise_new IndexError [] s1
                | a # _ \<Rightarrow>
                    if \<not> py_eq a (PyInt EWOULDBLOCK) \<or> py_eq (of_timeout timeout') (PyFloat 0)
                    then (Raise ex, s1)
                    else
                      (let (fr, s2) = sock_call os self ''fileno'' [] s1
                       in case fr of
                            Return fd \<Rightarrow>
                              (let (w, s3) = wait_write hub_switch fd timeout' wait_write_timeout_exc s2
                               in case w of
                                    Return _ \<Rightarrow>
                                      (let (r2, s4) = sock_call os self ''send'' [data, flags] s3
                                       in case r2 of
                                            Raise ex2 \<Rightarrow>
                                              if \<not> issubclass (exc_cls ex2) socket_error
                                              then (Raise ex2, s4)
                                              else
                                                (case exc_args ex2 of
                                                   [] \<Rightarrow> raise_new IndexError [] s4
                                                 | b # _ \<Rightarrow>
                                                     if py_eq b (PyInt EWOULDBLOCK)
                                                     then (Return (PyInt 0), s4)
                                                     else (Raise ex2, s4))
                                          | _ \<Rightarrow> (r2, s4))
                                  | _ \<Rightarrow> (w, s3))
                          | _ \<Rightarrow> (fr, s2)))
         | _ \<Rightarrow> (r, s1))"

definition socket_sendto ::
  "(state \<Rightarrow> pyobj result \<times> state) \<Rightarrow> os \<Rightarrow> nat \<Rightarrow> pyobj list \<Rightarrow> state \<Rightarrow> pyobj result \<times> state" where
  "socket_sendto hub_switch os self args s =
     (let (r, s1) = sock_call os self ''sendto'' args s
      in case r of
           Raise ex \<Rightarrow>
             if \<not> issubclass (exc_cls ex) socket_error then (Raise ex, s1)
             else
               (case exc_args ex of
                  [] \<Rightarrow> raise_new IndexError [] s1
                | a # _ \<Rightarrow>
                    if \<not> py_eq a (PyInt EWOULDBLOCK) \<or> py_eq timeout_global (PyFloat 0)
                    then (Raise ex, s1)
                    else
                      (let (fr, s2) = socket_delegated os self ''fileno'' [] s1
                       in case fr of
                            Return fd \<Rightarrow>
                              (let (w, s3) = wait_write hub_switch fd (sock_timeout (sockets s2 self))
                                               wait_write_timeout_exc s2
                               in case w of
                                    Return _ \<Rightarrow>
                                      (let (r2, s4) = sock_call os self ''sendto'' args s3
                                       in case r2 of
                                            Raise ex2 \<Rightarrow>
                                              if \<not> issubclass (exc_cls ex2) socket_error
                                              then (Raise ex2, s4)
                                              else
                                                (case exc_args ex2 of
                                                   [] \<Rightarrow> raise_new IndexError [] s4
                                                 | b # _ \<Rightarrow>
                                                     if py_eq b (PyInt EWOULDBLOCK)
                                                     then (Return (PyInt 0), s4)
                                                     else (Raise ex2, s4))
                                          | _ \<Rightarrow> (r2, s4))
                                  | _ \<Rightarrow> (w, s3))
                          | _ \<Rightarrow> (fr, s2)))
         | _ \<Rightarrow> (r, s1))"

definition socket_setblocking :: "nat \<Rightarrow> bool \<Rightarrow> state \<Rightarrow> state" where
  "socket_setblocking self flag s =
     (if flag
      then s\<lparr>sockets := (sockets s)(self := (sockets s self)\<lparr>sock_timeout := None\<rparr>)\<rparr>
      else s\<lparr>sockets := (sockets s)(self := (sockets s self)\<lparr>sock_timeout := Some 0\<rparr>)\<rparr>)"

text \<open>\<^verbatim>\<open>howlong.__float__\<close> exists on the numbers only.\<close>

definition socket_settimeout :: "nat \<Rightarrow> pyobj \<Rightarrow> state \<Rightarrow> pyobj result \<times> state" where
  "socket_settimeout self howlong s =
     (if howlong \<noteq> PyNone
      then (case py_num howlong of
              None \<Rightarrow> raise_new TypeError [PyStr ''a float is required''] s
            | Some f \<Rightarrow>
                if f < 0 then raise_new ValueError [PyStr ''Timeout value out of range''] s
                else (Return PyNone,
                      s\<lparr>sockets := (sockets s)(self := (sockets s self)\<lparr>sock_timeout := Some f\<rparr>)\<rparr>))
      else (Return PyNone,
            s\<lparr>sockets := (sockets s)(self := (sockets s self)\<lparr>sock_timeout := None\<rparr>)\<rparr>))"

definition socket_gettimeout :: "nat \<Rightarrow> state \<Rightarrow> pyobj" where
  "socket_gettimeout self s = of_timeout (sock_timeout (sockets s self))"

text \<open>The test the handlers of \<^verbatim>\<open>send\<close> and \<^verbatim>\<open>sendto\<close> make on a caught exception:
  it is a \<^verbatim>\<open>socket.error\<close> whose first argument equals \<^verbatim>\<open>EWOULDBLOCK\<close>.\<close>

definition would_block :: "exc \<Rightarrow> bool" where
  "would_block ex =
     (issubclass (exc_cls ex) socket_error
      \<and> (case exc_args ex of [] \<Rightarrow> False | a # _ \<Rightarrow> py_eq a (PyInt EWOULDBLOCK)))"

section \<open>A reactor that fires one event\<close>

text \<open>Modelled from the spec: what the waiting greenlet receives when the reactor's dispatch
  fires event \<open>ev\<close> with flags \<open>evtype\<close>. A timer calls its callback (\<^verbatim>\<open>g.switch\<close> or
  \<^verbatim>\<open>g.throw\<close>), a readiness event calls \<^verbatim>\<open>_wait_helper\<close>. These definitions give the
  examples a concrete environment; no general theorem depends on them.\<close>

definition greenlet_throw :: "gid \<Rightarrow> exc_spec option \<Rightarrow> state \<Rightarrow> pyobj result \<times> state" where
  "greenlet_throw g spec s =
     (case spec of
        None \<Rightarrow> raise_new GreenletExit [] (s\<lparr>current := g\<rparr>)
      | Some (ExcClass c) \<Rightarrow> raise_new c [] (s\<lparr>current := g\<rparr>)
      | Some (ExcInst e) \<Rightarrow> (Raise e, s\<lparr>current := g\<rparr>))"

definition wait_helper :: "evid \<Rightarrow> int \<Rightarrow> state \<Rightarrow> pyobj result \<times> state" where
  "wait_helper ev evtype s =
     (case ev_arg (events s ev) of
        None \<Rightarrow> (Hang, s)
      | Some (cur, timeout_exc) \<Rightarrow>
          if evtype AND EV_TIMEOUT \<noteq> 0 then greenlet_throw cur (Some timeout_exc) s
          else (Return (EventRef ev), s\<lparr>current := cur\<rparr>))"

definition fire :: "evid \<Rightarrow> int \<Rightarrow> state \<Rightarrow> pyobj result \<times> state" where
  "fire ev evtype s =
     (case ev_callback (events s ev) of
        greenlet_switch_cb g \<Rightarrow> (Return PyEmptyTuple, s\<lparr>current := g\<rparr>)
      | greenlet_throw_cb g spec \<Rightarrow> greenlet_throw g spec s
      | wait_helper_cb \<Rightarrow> wait_helper ev evtype s)"

definition firing_env :: "evid \<Rightarrow> int \<Rightarrow> env" where
  "firing_env ev evtype =
     \<lparr>switch_out = (\<lambda>g s. (Return (), s)),
      greenlet_switch = (\<lambda>g s. fire ev evtype s)\<rparr>"

text \<open>The state of a fresh process: only the main greenlet (number 0) exists, and the object
  identities 0 to 2 are taken by the default \<^verbatim>\<open>timeout_exc\<close> instances of socket.py.\<close>

definition init_state :: state where
  "init_state =
     \<lparr>current = 0,
      greenlets = (\<lambda>_. \<lparr>parent = None, dead = False, started = True,
                        has_switch_out = False, g_run = UserFunction 0\<rparr>),
      next_gid = 1,
      events = (\<lambda>_. \<lparr>ev_kind = Timer, ev_seconds = None, ev_callback = wait_helper_cb,
                     ev_arg = None, ev_cancelled = False\<rparr>),
      next_evid = 0,
      hubs = (\<lambda>_. \<lparr>greenlet = 0, keyboard_interrupt_signal = None\<rparr>),
      next_hub = 0,
      threadlocal_hub = None,
      next_oid = 3,
      sockets = (\<lambda>_. \<lparr>sock = realsocket 3, sock_timeout = None, inst_methods = {}\<rparr>),
      oscalls = [],
      printed = []\<rparr>"

section \<open>Properties of the cooperative socket\<close>

lemma close_eq:
  "socket_close self s =
     s\<lparr>sockets := (sockets s)(self := (sockets s self)\<lparr>sock := closedsocket,
          inst_methods := set delegate_methods \<union> inst_methods (sockets s self)\<rparr>)\<rparr>"
  by (simp add: socket_close_def setattr_dummy_def delegate_methods_def insert_commute)

lemma dummy_eq:
  "closedsocket_dummy s =
     (Raise (Exc socket_error (next_oid s) [PyInt EBADF, PyStr ''Bad file descriptor'']),
      s\<lparr>next_oid := Suc (next_oid s)\<rparr>)"
  by (simp add: closedsocket_dummy_def raise_new_def new_exc_def)

lemma sock_call_closed:
  "sock (sockets s self) = closedsocket \<Longrightarrow> sock_call os self m args s = closedsocket_dummy s"
  by (simp add: sock_call_def)

lemma not_would_block_EBADF: "\<not> py_eq (PyInt EBADF) (PyInt EWOULDBLOCK)"
  by (simp add: py_eq_def EBADF_def EWOULDBLOCK_def)

lemma send_closed:
  "sock (sockets s self) = closedsocket \<Longrightarrow>
   socket_send hs os self data flags t s = closedsocket_dummy s"
  by (simp add: socket_send_def sock_call_closed dummy_eq not_would_block_EBADF)

lemma sendto_closed:
  "sock (sockets s self) = closedsocket \<Longrightarrow>
   socket_sendto hs os self args s = closedsocket_dummy s"
  by (simp add: socket_sendto_def sock_call_closed dummy_eq not_would_block_EBADF)

text \<open>
  Claim C9. After \<^verbatim>\<open>s.close()\<close> the names send, recv, recv_into, sendto, recvfrom and
  recvfrom_into resolve on the object to \<^verbatim>\<open>_dummy\<close>, which in any state raises
  \<^verbatim>\<open>socket.error(EBADF, 'Bad file descriptor')\<close>; every method that delegates to the
  underlying socket raises the same error, and so do the class's own \<^verbatim>\<open>send\<close> and
  \<^verbatim>\<open>sendto\<close> when they are reached directly. Closing a second time leaves the state as the
  first close left it.
\<close>

theorem closed_socket_raises_EBADF:
  "socket_getattr sm self ''send'' (socket_close self s) = InstanceDummy
   \<and> socket_getattr sm self ''recv'' (socket_close self s) = InstanceDummy
   \<and> socket_getattr sm self ''recv_into'' (socket_close self s) = InstanceDummy
   \<and> socket_getattr sm self ''sendto'' (socket_close self s) = InstanceDummy
   \<and> socket_getattr sm self ''recvfrom'' (socket_close self s) = InstanceDummy
   \<and> socket_getattr sm self ''recvfrom_into'' (socket_close self s) = InstanceDummy
   \<and> closedsocket_dummy st =
        (Raise (Exc socket_error (next_oid st) [PyInt EBADF, PyStr ''Bad file descriptor'']),
         st\<lparr>next_oid := Suc (next_oid st)\<rparr>)
   \<and> socket_delegated os self m args (socket_close self s) = closedsocket_dummy (socket_close self s)
   \<and> socket_send hs os self data flags t (socket_close self s) = closedsocket_dummy (socket_close self s)
   \<and> socket_sendto hs os self args (socket_close self s) = closedsocket_dummy (socket_close self s)
   \<and> socket_close self (socket_close self s) = socket_close self s"
proof -
  have closed: "sock (sockets (socket_close self s) self) = closedsocket"
    by (simp add: close_eq)
  have bound: "set delegate_methods \<subseteq> inst_methods (sockets (socket_close self s) self)"
    by (simp add: close_eq)
  have names: "''send'' \<in> set delegate_methods" "''recv'' \<in> set delegate_methods"
    "''recv_into'' \<in> set delegate_methods" "''sendto'' \<in> set delegate_methods"
    "''recvfrom'' \<in> set delegate_methods" "''recvfrom_into'' \<in> set delegate_methods"
    by (simp_all add: delegate_methods_def)
  have idem: "socket_close self (socket_close self s) = socket_close self s"
    by (cases "sockets s self") (simp add: close_eq)
  from names bound show ?thesis
    unfolding socket_getattr_def socket_delegated_def
    using closed idem
    by (auto simp add: dummy_eq sock_call_closed send_closed sendto_closed)
qed

theorem closed_socket_raises_EBADF_witness:
  "socket_getattr [''fileno'', ''bind''] 0 ''recv'' (socket_close 0 init_state) = InstanceDummy
   \<and> fst (closedsocket_dummy (socket_close 0 init_state))
        = Raise (Exc socket_error 3 [PyInt 9, PyStr ''Bad file descriptor''])
   \<and> fst (socket_delegated (\<lambda>s fd m args. Inr PyNone) 0 ''bind'' [PyStr ''addr''] (socket_close 0 init_state))
        = Raise (Exc socket_error 3 [PyInt 9, PyStr ''Bad file descriptor''])
   \<and> fst (socket_send (\<lambda>s. (Hang, s)) (\<lambda>s fd m args. Inr (PyInt 4)) 0 (PyStr ''ping'') (PyInt 0)
             timeout_default (socket_close 0 init_state))
        = Raise (Exc socket_error 3 [PyInt 9, PyStr ''Bad file descriptor''])
   \<and> socket_close 0 (socket_close 0 init_state) = socket_close 0 init_state"
  using closed_socket_raises_EBADF
          [where sm = "[''fileno'', ''bind'']" and self = 0 and s = init_state
             and st = "socket_close 0 init_state" and os = "\<lambda>s fd m args. Inr PyNone"
             and m = "''bind''" and args = "[PyStr ''addr'']" and hs = "\<lambda>s. (Hang, s)"
             and data = "PyStr ''ping''" and flags = "PyInt 0" and t = timeout_default]
        closed_socket_raises_EBADF
          [where sm = "[''fileno'', ''bind'']" and self = 0 and s = init_state
             and st = "socket_close 0 init_state" and os = "\<lambda>s fd m args. Inr (PyInt 4)"
             and m = "''bind''" and args = "[PyStr ''addr'']" and hs = "\<lambda>s. (Hang, s)"
             and data = "PyStr ''ping''" and flags = "PyInt 0" and t = timeout_default]
  by (simp add: dummy_eq close_eq init_state_def EBADF_def)

text \<open>
  Claim C10. \<^verbatim>\<open>close()\<close> changes nothing but the socket object's \<^verbatim>\<open>_sock\<close> and its
  instance bindings of the delegate methods. The timeout field is untouched, so
  \<^verbatim>\<open>gettimeout()\<close> answers after the close what it answered before, and \<^verbatim>\<open>settimeout\<close> on the
  closed wrapper gives the result, and sets the timeout, that it would on the open one.
\<close>

theorem close_keeps_timeout:
  "socket_close self s =
     s\<lparr>sockets := (sockets s)(self := (sockets s self)\<lparr>sock := closedsocket,
          inst_methods := set delegate_methods \<union> inst_methods (sockets s self)\<rparr>)\<rparr>
   \<and> sock_timeout (sockets (socket_close self s) self) = sock_timeout (sockets s self)
   \<and> socket_gettimeout self (socket_close self s) = socket_gettimeout self s
   \<and> socket_settimeout self howlong (socket_close self s)
       = (fst (socket_settimeout self howlong s), socket_close self (snd (socket_settimeout self howlong s)))
   \<and> socket_gettimeout self (snd (socket_settimeout self howlong (socket_close self s)))
       = socket_gettimeout self (snd (socket_settimeout self howlong s))"
  by (cases "sockets s self")
     (simp add: close_eq socket_gettimeout_def socket_settimeout_def raise_new_def new_exc_def
           split: option.splits)

theorem close_keeps_timeout_witness:
  "socket_gettimeout 0 (socket_close 0 (snd (socket_settimeout 0 (PyFloat 2) init_state))) = PyFloat 2
   \<and> socket_gettimeout 0 (snd (socket_settimeout 0 (PyInt 5) (socket_close 0 init_state))) = PyFloat 5"
  using close_keeps_timeout [where self = 0 and s = "snd (socket_settimeout 0 (PyFloat 2) init_state)"
                                and howlong = PyNone]
        close_keeps_timeout [where self = 0 and s = init_state and howlong = "PyInt 5"]
  by (simp add: socket_gettimeout_def socket_settimeout_def init_state_def)

section \<open>Properties of the wait primitives, the hub and spawn\<close>

lemma try_finally_fst: "fst (try_finally rs cleanup) = fst rs"
  by (cases rs; cases "fst rs") (auto simp: try_finally_def)

lemma try_finally_snd:
  "fst rs \<noteq> Hang \<Longrightarrow> snd (try_finally rs cleanup) = cleanup (snd rs)"
  by (cases rs; cases "fst rs") (auto simp: try_finally_def)

lemma cancelled_after_cancel: "ev_cancelled (events (event_cancel ev s) ev)"
  by (simp add: event_cancel_def)

lemma try_finally_cancels:
  "fst (try_finally rs (event_cancel ev)) \<noteq> Hang \<Longrightarrow>
   ev_cancelled (events (snd (try_finally rs (event_cancel ev))) ev)"
  by (simp add: try_finally_fst try_finally_snd cancelled_after_cancel)

lemma get_hub_events: "events (snd (get_hub s)) = events s \<and> next_evid (snd (get_hub s)) = next_evid s
   \<and> current (snd (get_hub s)) = current s"
  by (simp add: get_hub_def Hub_init_def greenlet_class_def Let_def split: option.splits)

lemma switch_and_assert_Return:
  "fst (switch_and_assert hs msg evt s1) = Return v \<Longrightarrow> fst (hs s1) = Return (EventRef evt)"
  by (auto simp: switch_and_assert_def Let_def split_def raise_new_def new_exc_def
           split: result.splits if_splits)

lemma switch_and_assert_stray:
  "fst (hs s1) = Return x \<Longrightarrow> x \<noteq> EventRef evt \<Longrightarrow>
   \<exists>a. fst (switch_and_assert hs msg evt s1) = Raise a \<and> exc_cls a = AssertionError"
  by (auto simp: switch_and_assert_def Let_def split_def raise_new_def new_exc_def
           split: result.splits if_splits)

lemma switch_and_check_Return:
  "fst (switch_and_check env evt s1) = Return v \<Longrightarrow> fst (get_hub_switch env s1) = Return (EventRef evt)"
  by (auto simp: switch_and_check_def Let_def split_def raise_new_def new_exc_def
           split: result.splits if_splits)

lemma switch_and_check_stray:
  "fst (get_hub_switch env s1) = Return x \<Longrightarrow> x \<noteq> EventRef evt \<Longrightarrow>
   \<exists>a. fst (switch_and_check env evt s1) = Raise a \<and> exc_cls a = AssertionError"
  by (auto simp: switch_and_check_def Let_def split_def raise_new_def new_exc_def
           split: result.splits if_splits)

lemma call_switch_out_no_hook:
  "\<not> has_switch_out (greenlets s (getcurrent s)) \<Longrightarrow> call_switch_out env s = (Return (), s)"
  by (simp add: call_switch_out_def)

lemma call_switch_out_never_raises: "fst (call_switch_out env s) \<noteq> Raise e"
  by (auto simp: call_switch_out_def Let_def split: prod.splits result.splits)

lemmas run_defs =
  getcurrent_def new_exc_def raise_new_def try_finally_def arm_def event_cancel_def
  core_timer_def core_read_def core_write_def core_readwrite_def EV_TIMEOUT_def timer_def
  greenlet_class_def Greenlet_def Hub_init_def get_hub_def call_switch_out_def Hub_switch_to_def Hub_switch_def
  get_hub_switch_def switch_and_check_def switch_and_assert_def
  greenlet_throw_def wait_helper_def fire_def firing_env_def init_state_def
  wait_write_timeout_exc_def Let_def

text \<open>
  Claim C2. Whenever \<^verbatim>\<open>wait_read\<close>, \<^verbatim>\<open>wait_write\<close>, \<^verbatim>\<open>wait_readwrite\<close> (socket.py),
  \<^verbatim>\<open>wait_reader\<close>, \<^verbatim>\<open>wait_writer\<close> or \<^verbatim>\<open>sleep\<close> (__init__.py) returns or raises, whatever
  the hub switch delivered, the event the call armed is cancelled in the state the call leaves.
  \<^verbatim>\<open>sleep\<close> called from the hub's own greenlet fails its assertion before arming anything.
\<close>

theorem armed_event_cancelled_on_exit:
  "(fst (wait_read hs fd t e s) \<noteq> Hang \<longrightarrow>
      ev_cancelled (events (snd (wait_read hs fd t e s))
                           (fst (core_read fd wait_helper_cb t (getcurrent s, e) s))))
   \<and> (fst (wait_write hs fd t e s) \<noteq> Hang \<longrightarrow>
      ev_cancelled (events (snd (wait_write hs fd t e s))
                           (fst (core_write fd wait_helper_cb t (getcurrent s, e) s))))
   \<and> (fst (wait_readwrite hs fd t e s) \<noteq> Hang \<longrightarrow>
      ev_cancelled (events (snd (wait_readwrite hs fd t e s))
                           (fst (core_readwrite fd wait_helper_cb t (getcurrent s, e) s))))
   \<and> (fst (wait_reader env fd t e s) \<noteq> Hang \<longrightarrow>
      ev_cancelled (events (snd (wait_reader env fd t e s))
                           (fst (core_read fd wait_helper_cb t (getcurrent s, e) s))))
   \<and> (fst (wait_writer env fd t e s) \<noteq> Hang \<longrightarrow>
      ev_cancelled (events (snd (wait_writer env fd t e s))
                           (fst (core_write fd wait_helper_cb t (getcurrent s, e) s))))
   \<and> (fst (sleep env seconds s) \<noteq> Hang \<longrightarrow>
        (if greenlet (hubs (snd (get_hub s)) (fst (get_hub s))) = getcurrent (snd (get_hub s))
         then events (snd (sleep env seconds s)) = events s
              \<and> next_evid (snd (sleep env seconds s)) = next_evid s
         else ev_cancelled (events (snd (sleep env seconds s))
                (fst (timer seconds (greenlet_switch_cb (getcurrent (snd (get_hub s)))) (snd (get_hub s)))))))"
proof -
  have r: "fst (wait_read hs fd t e s) \<noteq> Hang \<longrightarrow>
      ev_cancelled (events (snd (wait_read hs fd t e s))
                           (fst (core_read fd wait_helper_cb t (getcurrent s, e) s)))"
    by (simp add: wait_read_def split_def Let_def try_finally_cancels)
  have w: "fst (wait_write hs fd t e s) \<noteq> Hang \<longrightarrow>
      ev_cancelled (events (snd (wait_write hs fd t e s))
                           (fst (core_write fd wait_helper_cb t (getcurrent s, e) s)))"
    by (simp add: wait_write_def split_def Let_def try_finally_cancels)
  have rw: "fst (wait_readwrite hs fd t e s) \<noteq> Hang \<longrightarrow>
      ev_cancelled (events (snd (wait_readwrite hs fd t e s))
                           (fst (core_readwrite fd wait_helper_cb t (getcurrent s, e) s)))"
    by (simp add: wait_readwrite_def split_def Let_def try_finally_cancels)
  have rr: "fst (wait_reader env fd t e s) \<noteq> Hang \<longrightarrow>
      ev_cancelled (events (snd (wait_reader env fd t e s))
                           (fst (core_read fd wait_helper_cb t (getcurrent s, e) s)))"
    by (simp add: wait_reader_def split_def Let_def try_finally_cancels)
  have ww: "fst (wait_writer env fd t e s) \<noteq> Hang \<longrightarrow>
      ev_cancelled (events (snd (wait_writer env fd t e s))
                           (fst (core_write fd wait_helper_cb t (getcurrent s, e) s)))"
    by (simp add: wait_writer_def split_def Let_def try_finally_cancels)
  have sl: "fst (sleep env seconds s) \<noteq> Hang \<longrightarrow>
        (if greenlet (hubs (snd (get_hub s)) (fst (get_hub s))) = getcurrent (snd (get_hub s))
         then events (snd (sleep env seconds s)) = events s
              \<and> next_evid (snd (sleep env seconds s)) = next_evid s
         else ev_cancelled (events (snd (sleep env seconds s))
                (fst (timer seconds (greenlet_switch_cb (getcurrent (snd (get_hub s)))) (snd (get_hub s))))))"
    by (simp add: sleep_def split_def Let_def try_finally_cancels raise_new_def new_exc_def get_hub_events)
  from r w rw rr ww sl show ?thesis by blast
qed

theorem armed_event_cancelled_on_exit_witness:
  "fst (wait_read (fire 0 2) (PyInt 3) (Some 1) wait_write_timeout_exc init_state) = Return PyNone
   \<and> ev_cancelled (events (snd (wait_read (fire 0 2) (PyInt 3) (Some 1) wait_write_timeout_exc init_state)) 0)
   \<and> fst (wait_write (fire 0 1) (PyInt 3) (Some 1) wait_write_timeout_exc init_state)
       = Raise (Exc socket_timeout 1 [PyStr ''timed out''])
   \<and> ev_cancelled (events (snd (wait_write (fire 0 1) (PyInt 3) (Some 1) wait_write_timeout_exc init_state)) 0)
   \<and> fst (wait_readwrite (\<lambda>s. (Return PyNone, s)) (PyInt 3) (Some 1) wait_write_timeout_exc init_state)
       = Raise (Exc AssertionError 3 [PyStr ''Invalid switch into wait_readwrite()'', PyNone])
   \<and> ev_cancelled (events (snd (wait_readwrite (\<lambda>s. (Return PyNone, s)) (PyInt 3) (Some 1)
                                   wait_write_timeout_exc init_state)) 0)
   \<and> fst (wait_reader (firing_env 0 2) (PyInt 3) (Some 1) (ExcClass TimeoutError) init_state) = Return PyNone
   \<and> ev_cancelled (events (snd (wait_reader (firing_env 0 2) (PyInt 3) (Some 1)
                                   (ExcClass TimeoutError) init_state)) 0)
   \<and> fst (wait_writer (firing_env 0 1) (PyInt 3) (Some 1) (ExcClass TimeoutError) init_state)
       = Raise (Exc TimeoutError 3 [])
   \<and> ev_cancelled (events (snd (wait_writer (firing_env 0 1) (PyInt 3) (Some 1)
                                   (ExcClass TimeoutError) init_state)) 0)
   \<and> fst (sleep (firing_env 0 0) 5 init_state) = Return PyNone
   \<and> ev_cancelled (events (snd (sleep (firing_env 0 0) 5 init_state)) 0)
   \<and> ev_kind (events (snd (sleep (firing_env 0 0) 5 init_state)) 0) = Timer"
  using armed_event_cancelled_on_exit
          [where hs = "fire 0 2" and env = "firing_env 0 2" and fd = "PyInt 3" and t = "Some 1"
             and e = wait_write_timeout_exc and s = init_state and seconds = 5]
        armed_event_cancelled_on_exit
          [where hs = "fire 0 1" and env = "firing_env 0 1" and fd = "PyInt 3" and t = "Some 1"
             and e = "ExcClass TimeoutError" and s = init_state and seconds = 5]
        armed_event_cancelled_on_exit
          [where hs = "\<lambda>s. (Return PyNone, s)" and env = "firing_env 0 0" and fd = "PyInt 3"
             and t = "Some 1" and e = wait_write_timeout_exc and s = init_state and seconds = 5]
  by (simp add: wait_read_def wait_write_def wait_readwrite_def wait_reader_def wait_writer_def
                sleep_def run_defs)

text \<open>
  Claim C3. A wait primitive returns normally only when the hub switch delivered the very
  event handle the call armed; when the switch returns any other object the call raises
  \<^verbatim>\<open>AssertionError\<close> instead of returning.
\<close>

theorem wait_returns_only_on_own_event:
  "(\<forall>v x. (fst (wait_read hs fd t e s) = Return v \<longrightarrow>
            fst (hs (snd (core_read fd wait_helper_cb t (getcurrent s, e) s)))
              = Return (EventRef (fst (core_read fd wait_helper_cb t (getcurrent s, e) s))))
        \<and> (fst (hs (snd (core_read fd wait_helper_cb t (getcurrent s, e) s))) = Return x
            \<and> x \<noteq> EventRef (fst (core_read fd wait_helper_cb t (getcurrent s, e) s)) \<longrightarrow>
            (\<exists>a. fst (wait_read hs fd t e s) = Raise a \<and> exc_cls a = AssertionError)))
   \<and> (\<forall>v x. (fst (wait_write hs fd t e s) = Return v \<longrightarrow>
            fst (hs (snd (core_write fd wait_helper_cb t (getcurrent s, e) s)))
              = Return (EventRef (fst (core_write fd wait_helper_cb t (getcurrent s, e) s))))
        \<and> (fst (hs (snd (core_write fd wait_helper_cb t (getcurrent s, e) s))) = Return x
            \<and> x \<noteq> EventRef (fst (core_write fd wait_helper_cb t (getcurrent s, e) s)) \<longrightarrow>
            (\<exists>a. fst (wait_write hs fd t e s) = Raise a \<and> exc_cls a = AssertionError)))
   \<and> (\<forall>v x. (fst (wait_readwrite hs fd t e s) = Return v \<longrightarrow>
            fst (hs (snd (core_readwrite fd wait_helper_cb t (getcurrent s, e) s)))
              = Return (EventRef (fst (core_readwrite fd wait_helper_cb t (getcurrent s, e) s))))
        \<and> (fst (hs (snd (core_readwrite fd wait_helper_cb t (getcurrent s, e) s))) = Return x
            \<and> x \<noteq> EventRef (fst (core_readwrite fd wait_helper_cb t (getcurrent s, e) s)) \<longrightarrow>
            (\<exists>a. fst (wait_readwrite hs fd t e s) = Raise a \<and> exc_cls a = AssertionError)))
   \<and> (\<forall>v x. (fst (wait_reader env fd t e s) = Return v \<longrightarrow>
            fst (get_hub_switch env (snd (core_read fd wait_helper_cb t (getcurrent s, e) s)))
              = Return (EventRef (fst (core_read fd wait_helper_cb t (getcurrent s, e) s))))
        \<and> (fst (get_hub_switch env (snd (core_read fd wait_helper_cb t (getcurrent s, e) s))) = Return x
            \<and> x \<noteq> EventRef (fst (core_read fd wait_helper_cb t (getcurrent s, e) s)) \<longrightarrow>
            (\<exists>a. fst (wait_reader env fd t e s) = Raise a \<and> exc_cls a = AssertionError)))
   \<and> (\<forall>v x. (fst (wait_writer env fd t e s) = Return v \<longrightarrow>
            fst (get_hub_switch env (snd (core_write fd wait_helper_cb t (getcurrent s, e) s)))
              = Return (EventRef (fst (core_write fd wait_helper_cb t (getcurrent s, e) s))))
        \<and> (fst (get_hub_switch env (snd (core_write fd wait_helper_cb t (getcurrent s, e) s))) = Return x
            \<and> x \<noteq> EventRef (fst (core_write fd wait_helper_cb t (getcurrent s, e) s)) \<longrightarrow>
            (\<exists>a. fst (wait_writer env fd t e s) = Raise a \<and> exc_cls a = AssertionError)))"
  unfolding wait_read_def wait_write_def wait_readwrite_def wait_reader_def wait_writer_def
  by (simp add: split_def Let_def try_finally_fst)
     (blast intro: switch_and_assert_Return switch_and_assert_stray
                   switch_and_check_Return switch_and_check_stray)

theorem wait_returns_only_on_own_event_witness:
  "fst (wait_read (fire 0 2) (PyInt 3) None wait_write_timeout_exc init_state) = Return PyNone
   \<and> fst (fire 0 2 (snd (core_read (PyInt 3) wait_helper_cb None
                          (getcurrent init_state, wait_write_timeout_exc) init_state)))
       = Return (EventRef 0)
   \<and> fst (core_read (PyInt 3) wait_helper_cb None
            (getcurrent init_state, wait_write_timeout_exc) init_state) = 0
   \<and> (\<exists>a. fst (wait_read (\<lambda>s. (Return PyNone, s)) (PyInt 3) None wait_write_timeout_exc init_state)
            = Raise a \<and> exc_cls a = AssertionError)
   \<and> fst (wait_reader (firing_env 0 2) (PyInt 3) (Some (-1)) (ExcClass TimeoutError) init_state)
       = Return PyNone
   \<and> fst (get_hub_switch (firing_env 0 2) (snd (core_read (PyInt 3) wait_helper_cb (Some (-1))
                          (getcurrent init_state, ExcClass TimeoutError) init_state)))
       = Return (EventRef 0)"
  using wait_returns_only_on_own_event
          [where hs = "fire 0 2" and env = "firing_env 0 2" and fd = "PyInt 3" and t = None
             and e = wait_write_timeout_exc and s = init_state]
        wait_returns_only_on_own_event
          [where hs = "\<lambda>s. (Return PyNone, s)" and env = "firing_env 0 2" and fd = "PyInt 3"
             and t = "Some (-1)" and e = "ExcClass TimeoutError" and s = init_state]
  by (simp add: wait_read_def wait_reader_def run_defs)

text \<open>
  Claim C4. \<^verbatim>\<open>Hub.switch()\<close> called from the hub's driver greenlet raises
  \<^verbatim>\<open>AssertionError\<close> and transfers nothing. Called from any other greenlet, once the
  \<^verbatim>\<open>switch_out\<close> hook (if any) has returned in state \<open>s2\<close>, control is transferred to the
  hub's driver greenlet, and that greenlet is not dead: when the driver was dead, it is a
  greenlet created by this call (never started, running \<^verbatim>\<open>Hub.run\<close>), otherwise the one the
  hub already had. The hook never makes the call raise, and a caller without a hook reaches
  the dead check in the state of the call (\<open>s2 = s\<close>).
\<close>

theorem Hub_switch_enters_live_driver:
  "(getcurrent s = greenlet (hubs s self) \<longrightarrow>
      (\<exists>a. Hub_switch env self s = (Raise a, s\<lparr>next_oid := Suc (next_oid s)\<rparr>)
           \<and> exc_cls a = AssertionError))
   \<and> (getcurrent s \<noteq> greenlet (hubs s self) \<and> call_switch_out env s = (Return (), s2) \<longrightarrow>
      (\<exists>g s3. Hub_switch_to env self s = (Return g, s3)
          \<and> Hub_switch env self s = greenlet_switch env g s3
          \<and> g = greenlet (hubs s3 self)
          \<and> \<not> dead (greenlets s3 g)
          \<and> (if dead (greenlets s2 (greenlet (hubs s2 self)))
              then g = next_gid s2
                   \<and> greenlets s3 g = \<lparr>parent = Some (current s2), dead = False, started = False,
                                        has_switch_out = False, g_run = Hub_run self\<rparr>
              else g = greenlet (hubs s2 self) \<and> s3 = s2)))
   \<and> (\<forall>e. fst (call_switch_out env s) \<noteq> Raise e)
   \<and> (\<not> has_switch_out (greenlets s (getcurrent s)) \<longrightarrow> call_switch_out env s = (Return (), s))"
proof -
  have trap: "getcurrent s = greenlet (hubs s self) \<longrightarrow>
      (\<exists>a. Hub_switch env self s = (Raise a, s\<lparr>next_oid := Suc (next_oid s)\<rparr>)
           \<and> exc_cls a = AssertionError)"
    by (auto simp: Hub_switch_def Hub_switch_to_def Let_def raise_new_def new_exc_def)
  have live: "getcurrent s \<noteq> greenlet (hubs s self) \<and> call_switch_out env s = (Return (), s2) \<longrightarrow>
      (\<exists>g s3. Hub_switch_to env self s = (Return g, s3)
          \<and> Hub_switch env self s = greenlet_switch env g s3
          \<and> g = greenlet (hubs s3 self)
          \<and> \<not> dead (greenlets s3 g)
          \<and> (if dead (greenlets s2 (greenlet (hubs s2 self)))
              then g = next_gid s2
                   \<and> greenlets s3 g = \<lparr>parent = Some (current s2), dead = False, started = False,
                                        has_switch_out = False, g_run = Hub_run self\<rparr>
              else g = greenlet (hubs s2 self) \<and> s3 = s2))"
    by (auto simp: Hub_switch_def Hub_switch_to_def Let_def greenlet_class_def)
  have hook: "\<forall>e. fst (call_switch_out env s) \<noteq> Raise e"
    by (simp add: call_switch_out_never_raises)
  have nohook: "\<not> has_switch_out (greenlets s (getcurrent s)) \<longrightarrow>
                  call_switch_out env s = (Return (), s)"
    by (simp add: call_switch_out_no_hook)
  from trap live hook nohook show ?thesis by - (intro conjI; assumption)
qed

theorem Hub_switch_enters_live_driver_witness:
  "getcurrent ((snd (get_hub init_state))\<lparr>current := 1\<rparr>)
     = greenlet (hubs ((snd (get_hub init_state))\<lparr>current := 1\<rparr>) 0)
   \<and> fst (Hub_switch (firing_env 0 0) 0 ((snd (get_hub init_state))\<lparr>current := 1\<rparr>))
       = Raise (Exc AssertionError 3 [PyStr ''Cannot switch to MAINLOOP from MAINLOOP''])
   \<and> dead (greenlets ((snd (get_hub init_state))
              \<lparr>greenlets := (greenlets (snd (get_hub init_state)))
                 (1 := (greenlets (snd (get_hub init_state)) 1)\<lparr>dead := True\<rparr>)\<rparr>) 1)
   \<and> fst (Hub_switch_to (firing_env 0 0) 0 ((snd (get_hub init_state))
              \<lparr>greenlets := (greenlets (snd (get_hub init_state)))
                 (1 := (greenlets (snd (get_hub init_state)) 1)\<lparr>dead := True\<rparr>)\<rparr>)) = Return 2
   \<and> \<not> dead (greenlets (snd (Hub_switch_to (firing_env 0 0) 0 ((snd (get_hub init_state))
              \<lparr>greenlets := (greenlets (snd (get_hub init_state)))
                 (1 := (greenlets (snd (get_hub init_state)) 1)\<lparr>dead := True\<rparr>)\<rparr>))) 2)
   \<and> fst (Hub_switch_to (firing_env 0 0) 0 (snd (get_hub init_state))) = Return 1
   \<and> \<not> dead (greenlets (snd (Hub_switch_to (firing_env 0 0) 0 (snd (get_hub init_state)))) 1)"
  using Hub_switch_enters_live_driver
          [where s = "(snd (get_hub init_state))\<lparr>current := 1\<rparr>" and self = 0
             and env = "firing_env 0 0" and ?s2.0 = "(snd (get_hub init_state))\<lparr>current := 1\<rparr>"]
        Hub_switch_enters_live_driver
          [where s = "(snd (get_hub init_state))
              \<lparr>greenlets := (greenlets (snd (get_hub init_state)))
                 (1 := (greenlets (snd (get_hub init_state)) 1)\<lparr>dead := True\<rparr>)\<rparr>" and self = 0
             and env = "firing_env 0 0" and ?s2.0 = "(snd (get_hub init_state))
              \<lparr>greenlets := (greenlets (snd (get_hub init_state)))
                 (1 := (greenlets (snd (get_hub init_state)) 1)\<lparr>dead := True\<rparr>)\<rparr>"]
        Hub_switch_enters_live_driver
          [where s = "snd (get_hub init_state)" and self = 0
             and env = "firing_env 0 0" and ?s2.0 = "snd (get_hub init_state)"]
  by (simp add: run_defs)

text \<open>
  Claim C5 says that every call \<^verbatim>\<open>spawn(fn, ...)\<close> returns a new greenlet without
  switching. Where \<^verbatim>\<open>greenlet\<close> was imported from \<^verbatim>\<open>py.magic\<close> the code does so: the
  current greenlet is the same after the call, the new greenlet has not started, its parent is
  the hub's driver greenlet, a timer with delay 0 whose callback is the new greenlet's
  \<^verbatim>\<open>switch\<close> has been armed, and the greenlets that existed before are untouched. Where
  that import failed, line 45 has bound \<^verbatim>\<open>Greenlet\<close> to the module \<^verbatim>\<open>greenlet\<close>, and the
  first line of \<^verbatim>\<open>spawn\<close> raises \<^verbatim>\<open>TypeError\<close>: no greenlet is made, no hub, and no timer is
  armed.
\<close>

theorem spawn_by_greenlet_import:
  "(\<exists>g s' hub. spawn py_magic func s = (Return g, s')
      \<and> getcurrent s' = getcurrent s
      \<and> g = next_gid s
      \<and> \<not> started (greenlets s' g) \<and> \<not> dead (greenlets s' g)
      \<and> g_run (greenlets s' g) = UserFunction func
      \<and> threadlocal_hub s' = Some hub
      \<and> parent (greenlets s' g) = Some (greenlet (hubs s' hub))
      \<and> events s' (next_evid s) =
           \<lparr>ev_kind = Timer, ev_seconds = Some 0, ev_callback = greenlet_switch_cb g,
            ev_arg = None, ev_cancelled = False\<rparr>
      \<and> next_evid s' = Suc (next_evid s)
      \<and> (\<forall>g'. g' < next_gid s \<longrightarrow> greenlets s' g' = greenlets s g'))
   \<and> spawn greenlet_module func s =
        (Raise (Exc TypeError (next_oid s) [PyStr ''module object is not callable'']),
         s\<lparr>next_oid := Suc (next_oid s)\<rparr>)"
proof -
  have ok: "\<exists>g s' hub. spawn py_magic func s = (Return g, s')
      \<and> getcurrent s' = getcurrent s
      \<and> g = next_gid s
      \<and> \<not> started (greenlets s' g) \<and> \<not> dead (greenlets s' g)
      \<and> g_run (greenlets s' g) = UserFunction func
      \<and> threadlocal_hub s' = Some hub
      \<and> parent (greenlets s' g) = Some (greenlet (hubs s' hub))
      \<and> events s' (next_evid s) =
           \<lparr>ev_kind = Timer, ev_seconds = Some 0, ev_callback = greenlet_switch_cb g,
            ev_arg = None, ev_cancelled = False\<rparr>
      \<and> next_evid s' = Suc (next_evid s)
      \<and> (\<forall>g'. g' < next_gid s \<longrightarrow> greenlets s' g' = greenlets s g')"
    by (auto simp: spawn_def Greenlet_def Let_def getcurrent_def greenlet_class_def get_hub_def
          Hub_init_def timer_def core_timer_def arm_def split: option.splits)
  have bad: "spawn greenlet_module func s =
        (Raise (Exc TypeError (next_oid s) [PyStr ''module object is not callable'']),
         s\<lparr>next_oid := Suc (next_oid s)\<rparr>)"
    by (simp add: spawn_def Greenlet_def raise_new_def new_exc_def)
  from ok bad show ?thesis by - (intro conjI; assumption)
qed

theorem spawn_by_greenlet_import_witness:
  "fst (spawn py_magic 7 init_state) = Return 1
   \<and> getcurrent (snd (spawn py_magic 7 init_state)) = getcurrent init_state
   \<and> \<not> started (greenlets (snd (spawn py_magic 7 init_state)) 1)
   \<and> threadlocal_hub (snd (spawn py_magic 7 init_state)) = Some 0
   \<and> greenlet (hubs (snd (spawn py_magic 7 init_state)) 0) = 2
   \<and> parent (greenlets (snd (spawn py_magic 7 init_state)) 1) = Some 2
   \<and> ev_callback (events (snd (spawn py_magic 7 init_state)) 0) = greenlet_switch_cb 1
   \<and> ev_seconds (events (snd (spawn py_magic 7 init_state)) 0) = Some 0
   \<and> (0 :: nat) < next_gid init_state
   \<and> greenlets (snd (spawn py_magic 7 init_state)) 0 = greenlets init_state 0
   \<and> fst (spawn greenlet_module 7 init_state)
       = Raise (Exc TypeError 3 [PyStr ''module object is not callable''])
   \<and> next_gid (snd (spawn greenlet_module 7 init_state)) = next_gid init_state
   \<and> next_evid (snd (spawn greenlet_module 7 init_state)) = next_evid init_state
   \<and> threadlocal_hub (snd (spawn greenlet_module 7 init_state)) = None"
  using spawn_by_greenlet_import [where func = 7 and s = init_state]
  by (simp add: spawn_def run_defs)

section \<open>Properties of the timeout scope and with_timeout\<close>

lemma timeout_init_None:
  "scope_timeout (fst (timeout_init None exception s)) = None
   \<and> events (snd (timeout_init None exception s)) = events s
   \<and> next_evid (snd (timeout_init None exception s)) = next_evid s"
  by (simp add: timeout_init_def new_exc_def Let_def split: option.splits)

lemma timeout_init_Some:
  "scope_timeout (fst (timeout_init (Some d) exception s)) = Some (next_evid s)
   \<and> events (snd (timeout_init (Some d) exception s)) (next_evid s) =
        \<lparr>ev_kind = Timer, ev_seconds = Some d,
         ev_callback = greenlet_throw_cb (getcurrent s)
                         (Some (scope_exception (fst (timeout_init (Some d) exception s)))),
         ev_arg = None, ev_cancelled = False\<rparr>"
  by (simp add: timeout_init_def new_exc_def Let_def timer_def core_timer_def arm_def getcurrent_def
           split: option.splits)

text \<open>
  Claim C6. Leaving a timeout scope, with or without an exception in flight, cancels the
  scope's timer. \<^verbatim>\<open>__exit__\<close> suppresses the exception exactly when its type is the silent
  sentinel class and its value is the very object the scope stores, so the sentinel of another
  scope propagates. A scope made with \<^verbatim>\<open>seconds = None\<close> arms no timer, and cancelling or
  leaving it changes nothing; with a number for \<^verbatim>\<open>seconds\<close> the scope holds the timer it
  armed.
\<close>

theorem timeout_scope_exit:
  "(\<forall>t. scope_timeout self = Some t \<longrightarrow> ev_cancelled (events (snd (timeout_exit self exc_info s)) t))
   \<and> (fst (timeout_exit self exc_info s) \<longleftrightarrow>
        (\<exists>v e. exc_info = Some v \<and> exc_cls v = SilentException
               \<and> scope_exception self = ExcInst e \<and> exc_id v = exc_id e))
   \<and> scope_timeout (fst (timeout_init None exception s)) = None
   \<and> events (snd (timeout_init None exception s)) = events s
   \<and> next_evid (snd (timeout_init None exception s)) = next_evid s
   \<and> timeout_cancel (fst (timeout_init None exception s)) st = st
   \<and> snd (timeout_exit (fst (timeout_init None exception s)) exc_info st) = st
   \<and> scope_timeout (fst (timeout_init (Some d) exception s)) = Some (next_evid s)
   \<and> ev_kind (events (snd (timeout_init (Some d) exception s)) (next_evid s)) = Timer"
proof -
  have cancel: "\<forall>t. scope_timeout self = Some t \<longrightarrow>
                 ev_cancelled (events (snd (timeout_exit self exc_info s)) t)"
    by (auto simp: timeout_exit_def timeout_cancel_def event_cancel_def Let_def split: option.splits)
  have suppress: "fst (timeout_exit self exc_info s) \<longleftrightarrow>
        (\<exists>v e. exc_info = Some v \<and> exc_cls v = SilentException
               \<and> scope_exception self = ExcInst e \<and> exc_id v = exc_id e)"
    by (cases "scope_exception self")
       (auto simp: timeout_exit_def Let_def exc_is_def split: option.splits)
  have inert: "timeout_cancel (fst (timeout_init None exception s)) st = st"
    "snd (timeout_exit (fst (timeout_init None exception s)) exc_info st) = st"
    by (simp_all add: timeout_exit_def timeout_cancel_def timeout_init_None Let_def split: option.splits)
  from cancel suppress inert timeout_init_None [of exception s] timeout_init_Some [of d exception s]
  show ?thesis by simp
qed

theorem timeout_scope_exit_witness:
  "scope_timeout (fst (timeout_init (Some 5) None init_state)) = Some 0
   \<and> ev_cancelled (events (snd (timeout_exit (fst (timeout_init (Some 5) None init_state)) None
                                 (snd (timeout_init (Some 5) None init_state)))) 0)
   \<and> scope_exception (fst (timeout_init (Some 5) None init_state)) = ExcInst (Exc SilentException 3 [])
   \<and> fst (timeout_exit (fst (timeout_init (Some 5) None init_state)) (Some (Exc SilentException 3 []))
            (snd (timeout_init (Some 5) None init_state)))
   \<and> scope_exception (fst (timeout_init (Some 7) None (snd (timeout_init (Some 5) None init_state))))
       = ExcInst (Exc SilentException 4 [])
   \<and> \<not> fst (timeout_exit (fst (timeout_init (Some 5) None init_state)) (Some (Exc SilentException 4 []))
            (snd (timeout_init (Some 5) None init_state)))
   \<and> \<not> fst (timeout_exit (fst (timeout_init (Some 5) None init_state)) None
            (snd (timeout_init (Some 5) None init_state)))
   \<and> \<not> fst (timeout_exit (fst (timeout_init (Some 5) (Some (ExcClass TimeoutError)) init_state))
            (Some (Exc TimeoutError 3 [])) (snd (timeout_init (Some 5) (Some (ExcClass TimeoutError)) init_state)))
   \<and> scope_timeout (fst (timeout_init None None init_state)) = None
   \<and> next_evid (snd (timeout_init None None init_state)) = 0"
  using timeout_scope_exit [where self = "fst (timeout_init (Some 5) None init_state)"
                              and exc_info = None
                              and s = "snd (timeout_init (Some 5) None init_state)"]
        timeout_scope_exit [where self = "fst (timeout_init (Some 5) None init_state)"
                              and exc_info = "Some (Exc SilentException 3 [])"
                              and s = "snd (timeout_init (Some 5) None init_state)"]
        timeout_scope_exit [where self = "fst (timeout_init (Some 5) None init_state)"
                              and exc_info = "Some (Exc SilentException 4 [])"
                              and s = "snd (timeout_init (Some 5) None init_state)"]
        timeout_scope_exit [where exception = None and s = init_state and d = 5]
  by (simp add: timeout_init_def timeout_exit_def timeout_cancel_def exc_is_def run_defs)

text \<open>
  Claim C1. In \<^verbatim>\<open>with_timeout(seconds, fn, ..., timeout_value=v)\<close>, with \<open>marker\<close> the
  \<^verbatim>\<open>TimeoutError\<close> instance the call allocates and \<open>r\<close> the outcome of \<^verbatim>\<open>fn\<close>: a value
  returned by \<^verbatim>\<open>fn\<close> is returned; the marker raised by \<^verbatim>\<open>fn\<close> gives \<open>v\<close> when the keyword
  was passed and propagates when it was not; a \<^verbatim>\<open>TimeoutError\<close> that is another object, and
  an exception of any other class, propagate whether or not the keyword was passed. When
  \<^verbatim>\<open>seconds\<close> is a number the call arms one timer, which throws the marker into the calling
  greenlet, and that timer is cancelled whenever the call returns or raises; with
  \<^verbatim>\<open>seconds = None\<close> there is no timer.
\<close>

theorem with_timeout_contract:
  assumes marker: "new_exc TimeoutError [] s = (marker, s1)"
      and scope: "timeout_init seconds (Some (ExcInst marker)) s1 = (scope, s2)"
      and call: "func s2 = (r, s3)"
  shows "(\<forall>v. r = Return v \<longrightarrow>
            with_timeout seconds func kw s = (Return v, timeout_cancel scope s3))
       \<and> (\<forall>v. r = Raise marker \<and> kw = Some v \<longrightarrow>
            with_timeout seconds func kw s = (Return v, timeout_cancel scope s3))
       \<and> (\<forall>ex. r = Raise ex \<and> issubclass (exc_cls ex) TimeoutError \<and> exc_id ex \<noteq> exc_id marker \<longrightarrow>
            with_timeout seconds func kw s = (Raise ex, timeout_cancel scope s3))
       \<and> (\<forall>ex. r = Raise ex \<and> \<not> issubclass (exc_cls ex) TimeoutError \<longrightarrow>
            with_timeout seconds func kw s = (Raise ex, timeout_cancel scope s3))
       \<and> (r = Raise marker \<and> kw = None \<longrightarrow>
            with_timeout seconds func kw s = (Raise marker, timeout_cancel scope s3))
       \<and> (r = Hang \<longrightarrow> with_timeout seconds func kw s = (Hang, s3))
       \<and> (\<forall>d. seconds = Some d \<longrightarrow>
            scope_timeout scope = Some (next_evid s)
            \<and> events s2 (next_evid s) =
                 \<lparr>ev_kind = Timer, ev_seconds = Some d,
                  ev_callback = greenlet_throw_cb (getcurrent s) (Some (ExcInst marker)),
                  ev_arg = None, ev_cancelled = False\<rparr>
            \<and> (r \<noteq> Hang \<longrightarrow>
                  ev_cancelled (events (snd (with_timeout seconds func kw s)) (next_evid s))))
       \<and> (seconds = None \<longrightarrow> scope_timeout scope = None \<and> timeout_cancel scope s3 = s3)"
proof -
  have m: "marker = Exc TimeoutError (next_oid s) []" "s1 = s\<lparr>next_oid := Suc (next_oid s)\<rparr>"
    using marker by (auto simp: new_exc_def)
  have wt: "with_timeout seconds func kw s =
     try_finally
       (case r of
          Raise ex \<Rightarrow>
            (if issubclass (exc_cls ex) TimeoutError
             then (if exc_is ex marker \<and> (\<exists>y. kw = Some y)
                   then (Return (case kw of None \<Rightarrow> PyNone | Some v \<Rightarrow> v), s3)
                   else (Raise ex, s3))
             else (Raise ex, s3))
        | _ \<Rightarrow> (r, s3))
       (timeout_cancel scope)"
    using marker scope call by (simp add: with_timeout_def Let_def)
  have sc: "\<forall>d. seconds = Some d \<longrightarrow>
            scope_timeout scope = Some (next_evid s)
            \<and> events s2 (next_evid s) =
                 \<lparr>ev_kind = Timer, ev_seconds = Some d,
                  ev_callback = greenlet_throw_cb (getcurrent s) (Some (ExcInst marker)),
                  ev_arg = None, ev_cancelled = False\<rparr>"
    using scope unfolding m
    by (auto simp: timeout_init_def Let_def timer_def core_timer_def arm_def getcurrent_def)
  have sn: "seconds = None \<longrightarrow> scope_timeout scope = None \<and> timeout_cancel scope s3 = s3"
    using scope by (auto simp: timeout_init_def Let_def timeout_cancel_def)
  have mk: "issubclass (exc_cls marker) TimeoutError" "exc_is marker marker"
    by (simp_all add: m exc_is_def)
  have c1: "\<forall>v. r = Return v \<longrightarrow>
            with_timeout seconds func kw s = (Return v, timeout_cancel scope s3)"
    by (simp add: wt try_finally_def)
  have c2: "\<forall>v. r = Raise marker \<and> kw = Some v \<longrightarrow>
            with_timeout seconds func kw s = (Return v, timeout_cancel scope s3)"
    using mk wt by (auto simp add: try_finally_def)
  have c3: "\<forall>ex. r = Raise ex \<and> issubclass (exc_cls ex) TimeoutError \<and> exc_id ex \<noteq> exc_id marker \<longrightarrow>
            with_timeout seconds func kw s = (Raise ex, timeout_cancel scope s3)"
    by (simp add: wt try_finally_def exc_is_def)
  have c4: "\<forall>ex. r = Raise ex \<and> \<not> issubclass (exc_cls ex) TimeoutError \<longrightarrow>
            with_timeout seconds func kw s = (Raise ex, timeout_cancel scope s3)"
    by (simp add: wt try_finally_def)
  have c5: "r = Raise marker \<and> kw = None \<longrightarrow>
            with_timeout seconds func kw s = (Raise marker, timeout_cancel scope s3)"
    using mk wt by (auto simp add: try_finally_def)
  have c6: "r = Hang \<longrightarrow> with_timeout seconds func kw s = (Hang, s3)"
    by (simp add: wt try_finally_def)
  have fin: "r \<noteq> Hang \<longrightarrow> snd (with_timeout seconds func kw s) = timeout_cancel scope s3"
    by (cases r) (auto simp: wt try_finally_def)
  have c7: "\<forall>d. seconds = Some d \<and> r \<noteq> Hang \<longrightarrow>
            ev_cancelled (events (snd (with_timeout seconds func kw s)) (next_evid s))"
    using sc fin by (auto simp: timeout_cancel_def event_cancel_def)
  have c8: "\<forall>d. seconds = Some d \<longrightarrow>
            scope_timeout scope = Some (next_evid s)
            \<and> events s2 (next_evid s) =
                 \<lparr>ev_kind = Timer, ev_seconds = Some d,
                  ev_callback = greenlet_throw_cb (getcurrent s) (Some (ExcInst marker)),
                  ev_arg = None, ev_cancelled = False\<rparr>
            \<and> (r \<noteq> Hang \<longrightarrow>
                  ev_cancelled (events (snd (with_timeout seconds func kw s)) (next_evid s)))"
    using sc c7 by simp
  from c1 c2 c3 c4 c5 c6 c8 sn show ?thesis by - (intro conjI; assumption)
qed

theorem with_timeout_contract_witness:
  "fst (with_timeout (Some (1/20)) (sleep (firing_env 0 0) 10) (Some (PyStr ''X'')) init_state)
     = Return (PyStr ''X'')
   \<and> ev_cancelled (events (snd (with_timeout (Some (1/20)) (sleep (firing_env 0 0) 10)
                                  (Some (PyStr ''X'')) init_state)) 0)
   \<and> fst (with_timeout (Some (1/20)) (sleep (firing_env 1 0) 10) (Some (PyStr ''X'')) init_state)
       = Return PyNone
   \<and> ev_cancelled (events (snd (with_timeout (Some (1/20)) (sleep (firing_env 1 0) 10)
                                  (Some (PyStr ''X'')) init_state)) 0)
   \<and> fst (with_timeout (Some 5) (\<lambda>s. (Raise (Exc TimeoutError 99 []), s)) (Some (PyStr ''X'')) init_state)
       = Raise (Exc TimeoutError 99 [])
   \<and> fst (with_timeout (Some 5) (\<lambda>s. (Raise (Exc ValueError 50 []), s)) (Some (PyStr ''X'')) init_state)
       = Raise (Exc ValueError 50 [])
   \<and> fst (with_timeout (Some (1/20)) (sleep (firing_env 0 0) 10) None init_state)
       = Raise (Exc TimeoutError 3 [])"
  using with_timeout_contract
          [where s = init_state and marker = "Exc TimeoutError 3 []"
             and ?s1.0 = "init_state\<lparr>next_oid := 4\<rparr>" and seconds = "Some (1/20)"
             and scope = "fst (timeout_init (Some (1/20)) (Some (ExcInst (Exc TimeoutError 3 [])))
                                (init_state\<lparr>next_oid := 4\<rparr>))"
             and ?s2.0 = "snd (timeout_init (Some (1/20)) (Some (ExcInst (Exc TimeoutError 3 [])))
                                (init_state\<lparr>next_oid := 4\<rparr>))"
             and func = "sleep (firing_env 0 0) 10"
             and r = "fst ((sleep (firing_env 0 0) 10)
                        (snd (timeout_init (Some (1/20)) (Some (ExcInst (Exc TimeoutError 3 [])))
                                (init_state\<lparr>next_oid := 4\<rparr>))))"
             and ?s3.0 = "snd ((sleep (firing_env 0 0) 10)
                        (snd (timeout_init (Some (1/20)) (Some (ExcInst (Exc TimeoutError 3 [])))
                                (init_state\<lparr>next_oid := 4\<rparr>))))"
             and kw = "Some (PyStr ''X'')"]
        with_timeout_contract
          [where s = init_state and marker = "Exc TimeoutError 3 []"
             and ?s1.0 = "init_state\<lparr>next_oid := 4\<rparr>" and seconds = "Some (1/20)"
             and scope = "fst (timeout_init (Some (1/20)) (Some (ExcInst (Exc TimeoutError 3 [])))
                                (init_state\<lparr>next_oid := 4\<rparr>))"
             and ?s2.0 = "snd (timeout_init (Some (1/20)) (Some (ExcInst (Exc TimeoutError 3 [])))
                                (init_state\<lparr>next_oid := 4\<rparr>))"
             and func = "sleep (firing_env 1 0) 10"
             and r = "fst ((sleep (firing_env 1 0) 10)
                        (snd (timeout_init (Some (1/20)) (Some (ExcInst (Exc TimeoutError 3 [])))
                                (init_state\<lparr>next_oid := 4\<rparr>))))"
             and ?s3.0 = "snd ((sleep (firing_env 1 0) 10)
                        (snd (timeout_init (Some (1/20)) (Some (ExcInst (Exc TimeoutError 3 [])))
                                (init_state\<lparr>next_oid := 4\<rparr>))))"
             and kw = "Some (PyStr ''X'')"]
        with_timeout_contract
          [where s = init_state and marker = "Exc TimeoutError 3 []"
             and ?s1.0 = "init_state\<lparr>next_oid := 4\<rparr>" and seconds = "Some 5"
             and scope = "fst (timeout_init (Some 5) (Some (ExcInst (Exc TimeoutError 3 [])))
                                (init_state\<lparr>next_oid := 4\<rparr>))"
             and ?s2.0 = "snd (timeout_init (Some 5) (Some (ExcInst (Exc TimeoutError 3 [])))
                                (init_state\<lparr>next_oid := 4\<rparr>))"
             and func = "\<lambda>s. (Raise (Exc TimeoutError 99 []), s)"
             and r = "fst ((\<lambda>s. (Raise (Exc TimeoutError 99 []), s))
                        (snd (timeout_init (Some 5) (Some (ExcInst (Exc TimeoutError 3 [])))
                                (init_state\<lparr>next_oid := 4\<rparr>))))"
             and ?s3.0 = "snd ((\<lambda>s. (Raise (Exc TimeoutError 99 []), s))
                        (snd (timeout_init (Some 5) (Some (ExcInst (Exc TimeoutError 3 [])))
                                (init_state\<lparr>next_oid := 4\<rparr>))))"
             and kw = "Some (PyStr ''X'')"]
  by (simp add: with_timeout_def sleep_def timeout_init_def timeout_cancel_def exc_is_def run_defs)

section \<open>Properties of send and sendto\<close>

lemma eff_zero: "py_eq (of_timeout eff) (PyFloat 0) \<longleftrightarrow> eff = Some 0"
  by (cases eff) (simp_all add: py_eq_def)

lemma would_block_Cons:
  "would_block ex \<Longrightarrow> \<exists>a rest. exc_args ex = a # rest \<and> py_eq a (PyInt EWOULDBLOCK)
                              \<and> issubclass (exc_cls ex) socket_error"
  by (cases "exc_args ex") (auto simp: would_block_def)

lemma sock_call_log:
  "sock (sockets s self) = realsocket fd0 \<Longrightarrow>
   oscalls (snd (sock_call os self m args s)) = oscalls s @ [(fd0, m, args)]"
  by (auto simp: sock_call_def Let_def raise_new_def new_exc_def split: sum.splits)

lemma retry_result:
  "sock_call os self ''send'' [data, flags] s3 = (r2, s4) \<Longrightarrow>
   (let (r2, s4) = sock_call os self ''send'' [data, flags] s3
    in case r2 of
         Raise ex2 \<Rightarrow>
           if \<not> issubclass (exc_cls ex2) socket_error then (Raise ex2, s4)
           else (case exc_args ex2 of
                   [] \<Rightarrow> raise_new IndexError [] s4
                 | b # _ \<Rightarrow> if py_eq b (PyInt EWOULDBLOCK) then (Return (PyInt 0), s4)
                            else (Raise ex2, s4))
       | _ \<Rightarrow> (r2, s4)) =
   (case r2 of
      Return n \<Rightarrow> (Return n, s4)
    | Hang \<Rightarrow> (Hang, s4)
    | Raise ex2 \<Rightarrow>
        if would_block ex2 then (Return (PyInt 0), s4)
        else if issubclass (exc_cls ex2) socket_error \<and> exc_args ex2 = [] then raise_new IndexError [] s4
        else (Raise ex2, s4))"
  by (auto simp: would_block_def split: result.splits list.splits)

text \<open>
  Claim C7. In \<^verbatim>\<open>socket.send(data, flags, timeout=...)\<close> the effective timeout \<open>eff\<close> is the
  keyword when given and the socket's own timeout otherwise. The underlying \<^verbatim>\<open>send\<close> is
  called once (one entry is added to the log of calls), and a value it returns is the result.
  When it would block and \<open>eff\<close> is 0 the error is raised again. When it would block and
  \<open>eff\<close> is not 0, the call waits with \<^verbatim>\<open>wait_write\<close>; once the wait has returned the
  underlying \<^verbatim>\<open>send\<close> is called one more time, and its value is the result, 0 is the result
  when it would block again, and any other error is raised. A wait that raises or never
  returns ends the call without a second attempt.
\<close>

theorem socket_send_contract:
  assumes eff: "eff = (case timeout of timeout_default \<Rightarrow> sock_timeout (sockets s self)
                                     | TimeoutArg t \<Rightarrow> t)"
      and first: "sock_call os self ''send'' [data, flags] s = (r, s1)"
  shows "(\<forall>n. r = Return n \<longrightarrow>
            socket_send hs os self data flags timeout s = (Return n, s1))
       \<and> (\<forall>ex. r = Raise ex \<and> would_block ex \<and> eff = Some 0 \<longrightarrow>
            socket_send hs os self data flags timeout s = (Raise ex, s1))
       \<and> (\<forall>ex fd s2 v s3 r2 s4.
            r = Raise ex \<and> would_block ex \<and> eff \<noteq> Some 0
            \<and> sock_call os self ''fileno'' [] s1 = (Return fd, s2)
            \<and> wait_write hs fd eff wait_write_timeout_exc s2 = (Return v, s3)
            \<and> sock_call os self ''send'' [data, flags] s3 = (r2, s4) \<longrightarrow>
              (\<forall>n. r2 = Return n \<longrightarrow>
                 socket_send hs os self data flags timeout s = (Return n, s4))
            \<and> (\<forall>ex2. r2 = Raise ex2 \<and> would_block ex2 \<longrightarrow>
                 socket_send hs os self data flags timeout s = (Return (PyInt 0), s4))
            \<and> (\<forall>ex2. r2 = Raise ex2 \<and> \<not> would_block ex2
                     \<and> \<not> (issubclass (exc_cls ex2) socket_error \<and> exc_args ex2 = []) \<longrightarrow>
                 socket_send hs os self data flags timeout s = (Raise ex2, s4)))
       \<and> (\<forall>ex fd s2 w s3.
            r = Raise ex \<and> would_block ex \<and> eff \<noteq> Some 0
            \<and> sock_call os self ''fileno'' [] s1 = (Return fd, s2)
            \<and> wait_write hs fd eff wait_write_timeout_exc s2 = (w, s3)
            \<and> (\<forall>v. w \<noteq> Return v) \<longrightarrow>
              socket_send hs os self data flags timeout s = (w, s3))
       \<and> (\<forall>fd0. sock (sockets s self) = realsocket fd0 \<longrightarrow>
            oscalls s1 = oscalls s @ [(fd0, ''send'', [data, flags])])"
proof -
  have c1: "\<forall>n. r = Return n \<longrightarrow>
            socket_send hs os self data flags timeout s = (Return n, s1)"
    using first by (simp add: socket_send_def)
  have c2: "\<forall>ex. r = Raise ex \<and> would_block ex \<and> eff = Some 0 \<longrightarrow>
            socket_send hs os self data flags timeout s = (Raise ex, s1)"
  proof (intro allI impI)
    fix ex assume h: "r = Raise ex \<and> would_block ex \<and> eff = Some 0"
    then obtain a rest where a: "exc_args ex = a # rest" "issubclass (exc_cls ex) socket_error"
      using would_block_Cons by blast
    from h have z: "py_eq (of_timeout eff) (PyFloat 0)" using eff_zero [of eff] by blast
    show "socket_send hs os self data flags timeout s = (Raise ex, s1)"
      using first h a z unfolding socket_send_def eff [symmetric] by (simp add: Let_def)
  qed
  have wait: "socket_send hs os self data flags timeout s =
                (case w of
                   Return _ \<Rightarrow>
                     (case r2 of
                        Return n \<Rightarrow> (Return n, s4)
                      | Hang \<Rightarrow> (Hang, s4)
                      | Raise ex2 \<Rightarrow>
                          if would_block ex2 then (Return (PyInt 0), s4)
                          else if issubclass (exc_cls ex2) socket_error \<and> exc_args ex2 = []
                               then raise_new IndexError [] s4
                               else (Raise ex2, s4))
                 | _ \<Rightarrow> (w, s3))"
    if h: "r = Raise ex" "would_block ex" "eff \<noteq> Some 0"
      and f: "sock_call os self ''fileno'' [] s1 = (Return fd, s2)"
      and w: "wait_write hs fd eff wait_write_timeout_exc s2 = (w, s3)"
      and r2: "sock_call os self ''send'' [data, flags] s3 = (r2, s4)"
    for ex fd s2 w s3 r2 s4
  proof -
    obtain a rest where a: "exc_args ex = a # rest" "issubclass (exc_cls ex) socket_error"
      "py_eq a (PyInt EWOULDBLOCK)"
      using would_block_Cons [OF h(2)] by blast
    from h have z: "\<not> py_eq (of_timeout eff) (PyFloat 0)" by (simp add: eff_zero)
    show ?thesis
      unfolding socket_send_def eff [symmetric]
      using first h(1) a z f w retry_result [OF r2]
      by (simp add: Let_def split: result.splits)
  qed
  have c3: "\<forall>ex fd s2 v s3 r2 s4.
            r = Raise ex \<and> would_block ex \<and> eff \<noteq> Some 0
            \<and> sock_call os self ''fileno'' [] s1 = (Return fd, s2)
            \<and> wait_write hs fd eff wait_write_timeout_exc s2 = (Return v, s3)
            \<and> sock_call os self ''send'' [data, flags] s3 = (r2, s4) \<longrightarrow>
              (\<forall>n. r2 = Return n \<longrightarrow>
                 socket_send hs os self data flags timeout s = (Return n, s4))
            \<and> (\<forall>ex2. r2 = Raise ex2 \<and> would_block ex2 \<longrightarrow>
                 socket_send hs os self data flags timeout s = (Return (PyInt 0), s4))
            \<and> (\<forall>ex2. r2 = Raise ex2 \<and> \<not> would_block ex2
                     \<and> \<not> (issubclass (exc_cls ex2) socket_error \<and> exc_args ex2 = []) \<longrightarrow>
                 socket_send hs os self data flags timeout s = (Raise ex2, s4))"
  proof (intro allI impI)
    fix ex fd s2 v s3 r2 s4
    assume h: "r = Raise ex \<and> would_block ex \<and> eff \<noteq> Some 0
            \<and> sock_call os self ''fileno'' [] s1 = (Return fd, s2)
            \<and> wait_write hs fd eff wait_write_timeout_exc s2 = (Return v, s3)
            \<and> sock_call os self ''send'' [data, flags] s3 = (r2, s4)"
    have "socket_send hs os self data flags timeout s =
            (case r2 of
               Return n \<Rightarrow> (Return n, s4)
             | Hang \<Rightarrow> (Hang, s4)
             | Raise ex2 \<Rightarrow>
                 if would_block ex2 then (Return (PyInt 0), s4)
                 else if issubclass (exc_cls ex2) socket_error \<and> exc_args ex2 = []
                      then raise_new IndexError [] s4
                      else (Raise ex2, s4))"
      using wait [of ex fd s2 "Return v" s3 r2 s4] h by simp
    then show "(\<forall>n. r2 = Return n \<longrightarrow>
                 socket_send hs os self data flags timeout s = (Return n, s4))
            \<and> (\<forall>ex2. r2 = Raise ex2 \<and> would_block ex2 \<longrightarrow>
                 socket_send hs os self data flags timeout s = (Return (PyInt 0), s4))
            \<and> (\<forall>ex2. r2 = Raise ex2 \<and> \<not> would_block ex2
                     \<and> \<not> (issubclass (exc_cls ex2) socket_error \<and> exc_args ex2 = []) \<longrightarrow>
                 socket_send hs os self data flags timeout s = (Raise ex2, s4))"
      by (cases r2) auto
  qed
  have c4: "\<forall>ex fd s2 w s3.
            r = Raise ex \<and> would_block ex \<and> eff \<noteq> Some 0
            \<and> sock_call os self ''fileno'' [] s1 = (Return fd, s2)
            \<and> wait_write hs fd eff wait_write_timeout_exc s2 = (w, s3)
            \<and> (\<forall>v. w \<noteq> Return v) \<longrightarrow>
              socket_send hs os self data flags timeout s = (w, s3)"
  proof (intro allI impI)
    fix ex fd s2 w s3
    assume h: "r = Raise ex \<and> would_block ex \<and> eff \<noteq> Some 0
            \<and> sock_call os self ''fileno'' [] s1 = (Return fd, s2)
            \<and> wait_write hs fd eff wait_write_timeout_exc s2 = (w, s3)
            \<and> (\<forall>v. w \<noteq> Return v)"
    obtain r2 s4 where r2: "sock_call os self ''send'' [data, flags] s3 = (r2, s4)"
      by (cases "sock_call os self ''send'' [data, flags] s3")
    show "socket_send hs os self data flags timeout s = (w, s3)"
      using wait [of ex fd s2 w s3 r2 s4] h r2 by (cases w) auto
  qed
  have c5: "\<forall>fd0. sock (sockets s self) = realsocket fd0 \<longrightarrow>
            oscalls s1 = oscalls s @ [(fd0, ''send'', [data, flags])]"
    using sock_call_log [of s self _ os "''send''" "[data, flags]"] first by simp
  from c1 c2 c3 c4 c5 show ?thesis by - (intro conjI; assumption)
qed

lemmas sock_defs =
  socket_send_def socket_sendto_def sock_call_def wait_write_def core_write_def
  socket_setblocking_def socket_delegated_def would_block_def timeout_global_def
  py_eq_def EWOULDBLOCK_def EBADF_def

theorem socket_send_contract_witness:
  "socket_send (fire 0 4) (\<lambda>s fd m args. Inr (PyInt 4)) 0 (PyStr ''ping'') (PyInt 0)
       timeout_default init_state
     = (Return (PyInt 4), init_state\<lparr>oscalls := [(3, ''send'', [PyStr ''ping'', PyInt 0])]\<rparr>)
   \<and> fst (socket_send (fire 0 4)
            (\<lambda>s fd m args. if m = ''send''
                  then Inl (socket_error, [PyInt 11, PyStr ''Resource temporarily unavailable''])
                  else Inr (PyInt 3))
            0 (PyStr ''ping'') (PyInt 0) timeout_default (socket_setblocking 0 False init_state))
       = Raise (Exc socket_error 3 [PyInt 11, PyStr ''Resource temporarily unavailable''])
   \<and> oscalls (snd (socket_send (fire 0 4)
            (\<lambda>s fd m args. if m = ''send''
                  then Inl (socket_error, [PyInt 11, PyStr ''Resource temporarily unavailable''])
                  else Inr (PyInt 3))
            0 (PyStr ''ping'') (PyInt 0) timeout_default (socket_setblocking 0 False init_state)))
       = [(3, ''send'', [PyStr ''ping'', PyInt 0])]
   \<and> fst (socket_send (fire 0 4)
            (\<lambda>s fd m args. if m = ''send''
                  then Inl (socket_error, [PyInt 11, PyStr ''Resource temporarily unavailable''])
                  else Inr (PyInt 3))
            0 (PyStr ''ping'') (PyInt 0) (TimeoutArg (Some 0)) init_state)
       = Raise (Exc socket_error 3 [PyInt 11, PyStr ''Resource temporarily unavailable''])
   \<and> fst (socket_send (fire 0 4)
            (\<lambda>s fd m args. if m = ''send''
                  then Inl (socket_error, [PyInt 11, PyStr ''Resource temporarily unavailable''])
                  else Inr (PyInt 3))
            0 (PyStr ''ping'') (PyInt 0) timeout_default init_state)
       = Return (PyInt 0)
   \<and> oscalls (snd (socket_send (fire 0 4)
            (\<lambda>s fd m args. if m = ''send''
                  then Inl (socket_error, [PyInt 11, PyStr ''Resource temporarily unavailable''])
                  else Inr (PyInt 3))
            0 (PyStr ''ping'') (PyInt 0) timeout_default init_state))
       = [(3, ''send'', [PyStr ''ping'', PyInt 0]), (3, ''fileno'', []),
          (3, ''send'', [PyStr ''ping'', PyInt 0])]
   \<and> fst (socket_send (fire 0 4)
            (\<lambda>s fd m args. if m = ''send'' \<and> oscalls s = []
                  then Inl (socket_error, [PyInt 11, PyStr ''Resource temporarily unavailable''])
                  else Inr (PyInt 3))
            0 (PyStr ''ping'') (PyInt 0) (TimeoutArg (Some 2)) init_state)
       = Return (PyInt 3)
   \<and> fst (socket_send (fire 0 1)
            (\<lambda>s fd m args. if m = ''send''
                  then Inl (socket_error, [PyInt 11, PyStr ''Resource temporarily unavailable''])
                  else Inr (PyInt 3))
            0 (PyStr ''ping'') (PyInt 0) (TimeoutArg (Some 2)) init_state)
       = Raise (Exc socket_timeout 1 [PyStr ''timed out''])"
  using socket_send_contract
          [where timeout = "timeout_default" and s = "init_state" and self = 0
             and eff = "None" and os = "\<lambda>s fd m args. Inr (PyInt 4)"
             and data = "PyStr ''ping''" and flags = "PyInt 0" and hs = "fire 0 4"
             and r = "fst (sock_call (\<lambda>s fd m args. Inr (PyInt 4)) 0 ''send'' [PyStr ''ping'', PyInt 0] (init_state))"
             and ?s1.0 = "snd (sock_call (\<lambda>s fd m args. Inr (PyInt 4)) 0 ''send'' [PyStr ''ping'', PyInt 0] (init_state))"]
        socket_send_contract
          [where timeout = "timeout_default" and s = "socket_setblocking 0 False init_state" and self = 0
             and eff = "Some 0" and os = "\<lambda>s fd m args. if m = ''send''
                  then Inl (socket_error, [PyInt 11, PyStr ''Resource temporarily unavailable''])
                  else Inr (PyInt 3)"
             and data = "PyStr ''ping''" and flags = "PyInt 0" and hs = "fire 0 4"
             and r = "fst (sock_call (\<lambda>s fd m args. if m = ''send''
                  then Inl (socket_error, [PyInt 11, PyStr ''Resource temporarily unavailable''])
                  else Inr (PyInt 3)) 0 ''send'' [PyStr ''ping'', PyInt 0] (socket_setblocking 0 False init_state))"
             and ?s1.0 = "snd (sock_call (\<lambda>s fd m args. if m = ''send''
                  then Inl (socket_error, [PyInt 11, PyStr ''Resource temporarily unavailable''])
                  else Inr (PyInt 3)) 0 ''send'' [PyStr ''ping'', PyInt 0] (socket_setblocking 0 False init_state))"]
        socket_send_contract
          [where timeout = "timeout_default" and s = "init_state" and self = 0
             and eff = "None" and os = "\<lambda>s fd m args. if m = ''send''
                  then Inl (socket_error, [PyInt 11, PyStr ''Resource temporarily unavailable''])
                  else Inr (PyInt 3)"
             and data = "PyStr ''ping''" and flags = "PyInt 0" and hs = "fire 0 4"
             and r = "fst (sock_call (\<lambda>s fd m args. if m = ''send''
                  then Inl (socket_error, [PyInt 11, PyStr ''Resource temporarily unavailable''])
                  else Inr (PyInt 3)) 0 ''send'' [PyStr ''ping'', PyInt 0] (init_state))"
             and ?s1.0 = "snd (sock_call (\<lambda>s fd m args. if m = ''send''
                  then Inl (socket_error, [PyInt 11, PyStr ''Resource temporarily unavailable''])
                  else Inr (PyInt 3)) 0 ''send'' [PyStr ''ping'', PyInt 0] (init_state))"]
  by (simp add: sock_defs run_defs)

lemma sendto_guard_never_zero: "\<not> py_eq timeout_global (PyFloat 0)"
  by (simp add: timeout_global_def py_eq_def)

lemma retry_result_sendto:
  "sock_call os self ''sendto'' args s3 = (r2, s4) \<Longrightarrow>
   (let (r2, s4) = sock_call os self ''sendto'' args s3
    in case r2 of
         Raise ex2 \<Rightarrow>
           if \<not> issubclass (exc_cls ex2) socket_error then (Raise ex2, s4)
           else (case exc_args ex2 of
                   [] \<Rightarrow> raise_new IndexError [] s4
                 | b # _ \<Rightarrow> if py_eq b (PyInt EWOULDBLOCK) then (Return (PyInt 0), s4)
                            else (Raise ex2, s4))
       | _ \<Rightarrow> (r2, s4)) =
   (case r2 of
      Return n \<Rightarrow> (Return n, s4)
    | Hang \<Rightarrow> (Hang, s4)
    | Raise ex2 \<Rightarrow>
        if would_block ex2 then (Return (PyInt 0), s4)
        else if issubclass (exc_cls ex2) socket_error \<and> exc_args ex2 = [] then raise_new IndexError [] s4
        else (Raise ex2, s4))"
  by (auto simp: would_block_def split: result.splits list.splits)

text \<open>
  Claim C8 says that \<^verbatim>\<open>sendto\<close> re-raises a would-block error when the socket's timeout is
  0, as \<^verbatim>\<open>send\<close> does. The guard of \<^verbatim>\<open>sendto\<close> reads the module-level name
  \<^verbatim>\<open>timeout\<close> (the exception class) where \<^verbatim>\<open>send\<close> reads the effective timeout, so it never
  holds: with the socket's timeout 0 and a would-block error from the underlying
  \<^verbatim>\<open>sendto\<close>, the call still goes on to \<^verbatim>\<open>wait_write\<close> (with timeout 0) and, when the
  wait returns, to the second attempt. The theorem states what the code does on these
  inputs; the example after it runs \<^verbatim>\<open>sendto\<close> and \<^verbatim>\<open>send\<close> on the same socket.
\<close>

theorem sendto_waits_with_zero_timeout:
  assumes zero: "sock_timeout (sockets s self) = Some 0"
      and first: "sock_call os self ''sendto'' args s = (Raise ex, s1)"
      and wb: "would_block ex"
      and fileno: "socket_delegated os self ''fileno'' [] s1 = (Return fd, s2)"
      and wait: "wait_write hs fd (sock_timeout (sockets s2 self)) wait_write_timeout_exc s2 = (w, s3)"
      and retry: "sock_call os self ''sendto'' args s3 = (r2, s4)"
  shows "socket_sendto hs os self args s =
           (case w of
              Return _ \<Rightarrow>
                (case r2 of
                   Return n \<Rightarrow> (Return n, s4)
                 | Hang \<Rightarrow> (Hang, s4)
                 | Raise ex2 \<Rightarrow>
                     if would_block ex2 then (Return (PyInt 0), s4)
                     else if issubclass (exc_cls ex2) socket_error \<and> exc_args ex2 = []
                          then raise_new IndexError [] s4
                          else (Raise ex2, s4))
            | _ \<Rightarrow> (w, s3))"
proof -
  obtain a rest where a: "exc_args ex = a # rest" "issubclass (exc_cls ex) socket_error"
      "py_eq a (PyInt EWOULDBLOCK)"
    using would_block_Cons [OF wb] by blast
  show ?thesis
    unfolding socket_sendto_def
    using first a sendto_guard_never_zero fileno wait retry_result_sendto [OF retry]
    by (simp add: Let_def split: result.splits)
qed

theorem sendto_waits_with_zero_timeout_witness:
  "sock_timeout (sockets (socket_setblocking 0 False init_state) 0) = Some 0
   \<and> fst (socket_sendto (fire 0 1)
            (\<lambda>s fd m args. if m = ''sendto''
                  then Inl (socket_error, [PyInt 11, PyStr ''Resource temporarily unavailable''])
                  else Inr (PyInt 3))
            0 [PyStr ''ping'', PyStr ''addr''] (socket_setblocking 0 False init_state))
       = Raise (Exc socket_timeout 1 [PyStr ''timed out''])
   \<and> events (snd (socket_sendto (fire 0 1)
            (\<lambda>s fd m args. if m = ''sendto''
                  then Inl (socket_error, [PyInt 11, PyStr ''Resource temporarily unavailable''])
                  else Inr (PyInt 3))
            0 [PyStr ''ping'', PyStr ''addr''] (socket_setblocking 0 False init_state))) 0
       = \<lparr>ev_kind = WriteEv (PyInt 3), ev_seconds = Some 0, ev_callback = wait_helper_cb,
          ev_arg = Some (0, wait_write_timeout_exc), ev_cancelled = True\<rparr>
   \<and> fst (socket_sendto (fire 0 4)
            (\<lambda>s fd m args. if m = ''sendto''
                  then Inl (socket_error, [PyInt 11, PyStr ''Resource temporarily unavailable''])
                  else Inr (PyInt 3))
            0 [PyStr ''ping'', PyStr ''addr''] (socket_setblocking 0 False init_state))
       = Return (PyInt 0)
   \<and> fst (socket_send (fire 0 1)
            (\<lambda>s fd m args. if m = ''send''
                  then Inl (socket_error, [PyInt 11, PyStr ''Resource temporarily unavailable''])
                  else Inr (PyInt 3))
            0 (PyStr ''ping'') (PyInt 0) timeout_default (socket_setblocking 0 False init_state))
       = Raise (Exc socket_error 3 [PyInt 11, PyStr ''Resource temporarily unavailable''])
   \<and> next_evid (snd (socket_send (fire 0 1)
            (\<lambda>s fd m args. if m = ''send''
                  then Inl (socket_error, [PyInt 11, PyStr ''Resource temporarily unavailable''])
                  else Inr (PyInt 3))
            0 (PyStr ''ping'') (PyInt 0) timeout_default (socket_setblocking 0 False init_state))) = 0"
  using sendto_waits_with_zero_timeout
          [where s = "socket_setblocking 0 False init_state" and self = 0 and os = "\<lambda>s fd m args. if m = ''sendto''
                  then Inl (socket_error, [PyInt 11, PyStr ''Resource temporarily unavailable''])
                  else Inr (PyInt 3)" and hs = "fire 0 1"
             and args = "[PyStr ''ping'', PyStr ''addr'']"
             and ex = "Exc socket_error 3 [PyInt 11, PyStr ''Resource temporarily unavailable'']"
             and ?s1.0 = "snd (sock_call (\<lambda>s fd m args. if m = ''sendto''
                  then Inl (socket_error, [PyInt 11, PyStr ''Resource temporarily unavailable''])
                  else Inr (PyInt 3)) 0 ''sendto'' [PyStr ''ping'', PyStr ''addr''] (socket_setblocking 0 False init_state))"
             and fd = "PyInt 3"
             and ?s2.0 = "snd (socket_delegated (\<lambda>s fd m args. if m = ''sendto''
                  then Inl (socket_error, [PyInt 11, PyStr ''Resource temporarily unavailable''])
                  else Inr (PyInt 3)) 0 ''fileno'' [] (snd (sock_call (\<lambda>s fd m args. if m = ''sendto''
                  then Inl (socket_error, [PyInt 11, PyStr ''Resource temporarily unavailable''])
                  else Inr (PyInt 3)) 0 ''sendto'' [PyStr ''ping'', PyStr ''addr''] (socket_setblocking 0 False init_state))))"
             and w = "fst (wait_write (fire 0 1) (PyInt 3) (Some 0) wait_write_timeout_exc (snd (socket_delegated (\<lambda>s fd m args. if m = ''sendto''
                  then Inl (socket_error, [PyInt 11, PyStr ''Resource temporarily unavailable''])
                  else Inr (PyInt 3)) 0 ''fileno'' [] (snd (sock_call (\<lambda>s fd m args. if m = ''sendto''
                  then Inl (socket_error, [PyInt 11, PyStr ''Resource temporarily unavailable''])
                  else Inr (PyInt 3)) 0 ''sendto'' [PyStr ''ping'', PyStr ''addr''] (socket_setblocking 0 False init_state))))))"
             and ?s3.0 = "snd (wait_write (fire 0 1) (PyInt 3) (Some 0) wait_write_timeout_exc (snd (socket_delegated (\<lambda>s fd m args. if m = ''sendto''
                  then Inl (socket_error, [PyInt 11, PyStr ''Resource temporarily unavailable''])
                  else Inr (PyInt 3)) 0 ''fileno'' [] (snd (sock_call (\<lambda>s fd m args. if m = ''sendto''
                  then Inl (socket_error, [PyInt 11, PyStr ''Resource temporarily unavailable''])
                  else Inr (PyInt 3)) 0 ''sendto'' [PyStr ''ping'', PyStr ''addr''] (socket_setblocking 0 False init_state))))))"
             and ?r2.0 = "fst (sock_call (\<lambda>s fd m args. if m = ''sendto''
                  then Inl (socket_error, [PyInt 11, PyStr ''Resource temporarily unavailable''])
                  else Inr (PyInt 3)) 0 ''sendto'' [PyStr ''ping'', PyStr ''addr'']
                    (snd (wait_write (fire 0 1) (PyInt 3) (Some 0) wait_write_timeout_exc (snd (socket_delegated (\<lambda>s fd m args. if m = ''sendto''
                  then Inl (socket_error, [PyInt 11, PyStr ''Resource temporarily unavailable''])
                  else Inr (PyInt 3)) 0 ''fileno'' [] (snd (sock_call (\<lambda>s fd m args. if m = ''sendto''
                  then Inl (socket_error, [PyInt 11, PyStr ''Resource temporarily unavailable''])
                  else Inr (PyInt 3)) 0 ''sendto'' [PyStr ''ping'', PyStr ''addr''] (socket_setblocking 0 False init_state))))))))"
             and ?s4.0 = "snd (sock_call (\<lambda>s fd m args. if m = ''sendto''
                  then Inl (socket_error, [PyInt 11, PyStr ''Resource temporarily unavailable''])
                  else Inr (PyInt 3)) 0 ''sendto'' [PyStr ''ping'', PyStr ''addr'']
                    (snd (wait_write (fire 0 1) (PyInt 3) (Some 0) wait_write_timeout_exc (snd (socket_delegated (\<lambda>s fd m args. if m = ''sendto''
                  then Inl (socket_error, [PyInt 11, PyStr ''Resource temporarily unavailable''])
                  else Inr (PyInt 3)) 0 ''fileno'' [] (snd (sock_call (\<lambda>s fd m args. if m = ''sendto''
                  then Inl (socket_error, [PyInt 11, PyStr ''Resource temporarily unavailable''])
                  else Inr (PyInt 3)) 0 ''sendto'' [PyStr ''ping'', PyStr ''addr''] (socket_setblocking 0 False init_state))))))))"]
        sendto_waits_with_zero_timeout
          [where s = "socket_setblocking 0 False init_state" and self = 0 and os = "\<lambda>s fd m args. if m = ''sendto''
                  then Inl (socket_error, [PyInt 11, PyStr ''Resource temporarily unavailable''])
                  else Inr (PyInt 3)" and hs = "fire 0 4"
             and args = "[PyStr ''ping'', PyStr ''addr'']"
             and ex = "Exc socket_error 3 [PyInt 11, PyStr ''Resource temporarily unavailable'']"
             and ?s1.0 = "snd (sock_call (\<lambda>s fd m args. if m = ''sendto''
                  then Inl (socket_error, [PyInt 11, PyStr ''Resource temporarily unavailable''])
                  else Inr (PyInt 3)) 0 ''sendto'' [PyStr ''ping'', PyStr ''addr''] (socket_setblocking 0 False init_state))"
             and fd = "PyInt 3"
             and ?s2.0 = "snd (socket_delegated (\<lambda>s fd m args. if m = ''sendto''
                  then Inl (socket_error, [PyInt 11, PyStr ''Resource temporarily unavailable''])
                  else Inr (PyInt 3)) 0 ''fileno'' [] (snd (sock_call (\<lambda>s fd m args. if m = ''sendto''
                  then Inl (socket_error, [PyInt 11, PyStr ''Resource temporarily unavailable''])
                  else Inr (PyInt 3)) 0 ''sendto'' [PyStr ''ping'', PyStr ''addr''] (socket_setblocking 0 False init_state))))"
             and w = "fst (wait_write (fire 0 4) (PyInt 3) (Some 0) wait_write_timeout_exc (snd (socket_delegated (\<lambda>s fd m args. if m = ''sendto''
                  then Inl (socket_error, [PyInt 11, PyStr ''Resource temporarily unavailable''])
                  else Inr (PyInt 3)) 0 ''fileno'' [] (snd (sock_call (\<lambda>s fd m args. if m = ''sendto''
                  then Inl (socket_error, [PyInt 11, PyStr ''Resource temporarily unavailable''])
                  else Inr (PyInt 3)) 0 ''sendto'' [PyStr ''ping'', PyStr ''addr''] (socket_setblocking 0 False init_state))))))"
             and ?s3.0 = "snd (wait_write (fire 0 4) (PyInt 3) (Some 0) wait_write_timeout_exc (snd (socket_delegated (\<lambda>s fd m args. if m = ''sendto''
                  then Inl (socket_error, [PyInt 11, PyStr ''Resource temporarily unavailable''])
                  else Inr (PyInt 3)) 0 ''fileno'' [] (snd (sock_call (\<lambda>s fd m args. if m = ''sendto''
                  then Inl (socket_error, [PyInt 11, PyStr ''Resource temporarily unavailable''])
                  else Inr (PyInt 3)) 0 ''sendto'' [PyStr ''ping'', PyStr ''addr''] (socket_setblocking 0 False init_state))))))"
             and ?r2.0 = "fst (sock_call (\<lambda>s fd m args. if m = ''sendto''
                  then Inl (socket_error, [PyInt 11, PyStr ''Resource temporarily unavailable''])
                  else Inr (PyInt 3)) 0 ''sendto'' [PyStr ''ping'', PyStr ''addr'']
                    (snd (wait_write (fire 0 4) (PyInt 3) (Some 0) wait_write_timeout_exc (snd (socket_delegated (\<lambda>s fd m args. if m = ''sendto''
                  then Inl (socket_error, [PyInt 11, PyStr ''Resource temporarily unavailable''])
                  else Inr (PyInt 3)) 0 ''fileno'' [] (snd (sock_call (\<lambda>s fd m args. if m = ''sendto''
                  then Inl (socket_error, [PyInt 11, PyStr ''Resource temporarily unavailable''])
                  else Inr (PyInt 3)) 0 ''sendto'' [PyStr ''ping'', PyStr ''addr''] (socket_setblocking 0 False init_state))))))))"
             and ?s4.0 = "snd (sock_call (\<lambda>s fd m args. if m = ''sendto''
                  then Inl (socket_error, [PyInt 11, PyStr ''Resource temporarily unavailable''])
                  else Inr (PyInt 3)) 0 ''sendto'' [PyStr ''ping'', PyStr ''addr'']
                    (snd (wait_write (fire 0 4) (PyInt 3) (Some 0) wait_write_timeout_exc (snd (socket_delegated (\<lambda>s fd m args. if m = ''sendto''
                  then Inl (socket_error, [PyInt 11, PyStr ''Resource temporarily unavailable''])
                  else Inr (PyInt 3)) 0 ''fileno'' [] (snd (sock_call (\<lambda>s fd m args. if m = ''sendto''
                  then Inl (socket_error, [PyInt 11, PyStr ''Resource temporarily unavailable''])
                  else Inr (PyInt 3)) 0 ''sendto'' [PyStr ''ping'', PyStr ''addr''] (socket_setblocking 0 False init_state))))))))"]
  by (simp add: sock_defs run_defs)

end
